theory Spec2Isabelle
  imports Main "HOL-Library.Word" "HOL-Library.Multiset"
begin

section \<open>JavaScript values used by the application\<close>

subsection \<open>Strings\<close>

text \<open>
  A JavaScript string is a sequence of UTF-16 code units. String literals of the source
  are ASCII; \<open>js\<close> embeds them.
\<close>

type_synonym code_unit = "16 word"

type_synonym jsstring = "code_unit list"

definition js :: "string \<Rightarrow> jsstring" where
  "js s = map of_char s"

subsection \<open>Errors\<close>

text \<open>
  An error object has a name and a message. \<open>new Error(msg)\<close> of the source is
  \<open>Error_of msg\<close>. The errors the engine raises by itself are a \<open>TypeError\<close> on a property
  read of \<open>undefined\<close> or \<open>null\<close>, and the \<open>URIError\<close> of \<open>encodeURI\<close>. ECMA-262 fixes
  their names and leaves their message texts to the engine, so the texts are a parameter:
  the message of the \<open>URIError\<close>, and the messages of the two \<open>TypeError\<close>s as functions of
  the name of the property read.
\<close>

datatype error = JsError (err_name: jsstring) (err_message: jsstring)

definition Error_of :: "jsstring \<Rightarrow> error" where
  "Error_of msg = JsError (js ''Error'') msg"

definition TypeError_of :: "jsstring \<Rightarrow> error" where
  "TypeError_of msg = JsError (js ''TypeError'') msg"

definition URIError_of :: "jsstring \<Rightarrow> error" where
  "URIError_of msg = JsError (js ''URIError'') msg"

record engine =
  uri_malformed :: jsstring
  read_of_undefined :: "jsstring \<Rightarrow> jsstring"
  read_of_null :: "jsstring \<Rightarrow> jsstring"

text \<open>\<open>Error.prototype.toString\<close>, as a template literal \<open>${error}\<close> calls it.\<close>

definition toString_error :: "error \<Rightarrow> jsstring" where
  "toString_error e =
     (if err_name e = [] then err_message e
      else if err_message e = [] then err_name e
      else err_name e @ js '': '' @ err_message e)"

subsection \<open>Numbers\<close>

text \<open>
  A JavaScript number is an IEEE-754 double. The numbers of this program are integers, so a
  number is modelled as the integer it holds: an integer of magnitude up to \<open>2^53\<close>, or a
  larger one that fits a significand of 53 bits. \<open>nearest_double\<close> rounds an integer to
  the nearest such number, a tie going to the even significand; the sum of two numbers is
  their exact sum rounded so. \<open>ulp n\<close> is the distance between neighbouring doubles at the
  magnitude \<open>n\<close>.
\<close>

function ulp :: "nat \<Rightarrow> nat" where
  "ulp n = (if n < 2 ^ 53 then 1 else 2 * ulp (n div 2))"
  by pat_completeness auto
termination
  by (relation "measure (\<lambda>n. n)") auto

definition nearest_double :: "int \<Rightarrow> int" where
  "nearest_double x =
     (let u = int (ulp (nat \<bar>x\<bar>)); q = x div u; r = x mod u
      in if 2 * r < u then q * u
         else if u < 2 * r then (q + 1) * u
         else if even q then q * u else (q + 1) * u)"

text \<open>\<open>JSON.parse\<close> reads the text of an integer as the nearest double.\<close>

definition number_of :: "int \<Rightarrow> int" where
  "number_of i = nearest_double i"

definition number_add :: "int \<Rightarrow> int \<Rightarrow> int" where
  "number_add a b = nearest_double (a + b)"

subsection \<open>encodeURI\<close>

text \<open>
  \<open>Encode\<close> of ECMA-262, with the set of the code units to leave unescaped as its
  parameter: a code unit of the set is copied; any other code point is written as the
  percent escapes of its UTF-8 octets; a surrogate code unit that is not part of a pair
  throws \<open>URIError\<close>. \<open>encodeURI\<close>, which the source calls, leaves unescaped the letters,
  the digits, the marks \<open>- _ . ! ~ * ' ( )\<close>, the reserved characters
  \<open>; / ? : @ & = + $ ,\<close> and \<open>#\<close>.
\<close>

datatype uri_failure = URIError

definition in_range :: "code_unit \<Rightarrow> nat \<Rightarrow> nat \<Rightarrow> bool" where
  "in_range c lo hi = (lo \<le> unat c \<and> unat c \<le> hi)"

definition uriReserved :: jsstring where
  "uriReserved = js '';/?:@&=+$,''"

definition uriMark :: jsstring where
  "uriMark = js ''-_.!~*()'' @ [0x27]"

definition uriUnescaped :: "code_unit \<Rightarrow> bool" where
  "uriUnescaped c =
     (in_range c 0x41 0x5A \<or> in_range c 0x61 0x7A \<or> in_range c 0x30 0x39
      \<or> c \<in> set uriMark)"

definition reserved :: "code_unit \<Rightarrow> bool" where
  "reserved c = (c \<in> set uriReserved \<or> c = 0x23)"

definition unescaped :: "code_unit \<Rightarrow> bool" where
  "unescaped c = (uriUnescaped c \<or> reserved c)"

definition is_lead :: "code_unit \<Rightarrow> bool" where
  "is_lead c = in_range c 0xD800 0xDBFF"

definition is_trail :: "code_unit \<Rightarrow> bool" where
  "is_trail c = in_range c 0xDC00 0xDFFF"

definition pair_code_point :: "code_unit \<Rightarrow> code_unit \<Rightarrow> nat" where
  "pair_code_point hi lo = (unat hi - 0xD800) * 0x400 + (unat lo - 0xDC00) + 0x10000"

definition utf8 :: "nat \<Rightarrow> nat list" where
  "utf8 cp =
     (if cp < 0x80 then [cp]
      else if cp < 0x800 then [0xC0 + cp div 0x40, 0x80 + cp mod 0x40]
      else if cp < 0x10000 then
        [0xE0 + cp div 0x1000, 0x80 + (cp div 0x40) mod 0x40, 0x80 + cp mod 0x40]
      else
        [0xF0 + cp div 0x40000, 0x80 + (cp div 0x1000) mod 0x40,
         0x80 + (cp div 0x40) mod 0x40, 0x80 + cp mod 0x40])"

definition hex_digit :: "nat \<Rightarrow> code_unit" where
  "hex_digit n = (if n < 10 then of_nat (0x30 + n) else of_nat (0x37 + n))"

definition percent :: "nat \<Rightarrow> jsstring" where
  "percent octet = [0x25, hex_digit (octet div 16), hex_digit (octet mod 16)]"

definition escape :: "nat \<Rightarrow> jsstring" where
  "escape cp = concat (map percent (utf8 cp))"

fun Encode :: "(code_unit \<Rightarrow> bool) \<Rightarrow> jsstring \<Rightarrow> uri_failure + jsstring" where
  "Encode keep [] = Inr []"
| "Encode keep (c # cs) =
     (if keep c then
        (case Encode keep cs of Inl e \<Rightarrow> Inl e | Inr r \<Rightarrow> Inr (c # r))
      else if is_trail c then Inl URIError
      else if is_lead c then
        (case cs of
           [] \<Rightarrow> Inl URIError
         | d # ds \<Rightarrow>
             if is_trail d then
               (case Encode keep ds of
                  Inl e \<Rightarrow> Inl e
                | Inr r \<Rightarrow> Inr (escape (pair_code_point c d) @ r))
             else Inl URIError)
      else
        (case Encode keep cs of Inl e \<Rightarrow> Inl e | Inr r \<Rightarrow> Inr (escape (unat c) @ r)))"

definition encodeURI :: "jsstring \<Rightarrow> uri_failure + jsstring" where
  "encodeURI s = Encode unescaped s"

text \<open>
  The percent-encoding of a text that is to stand as one component of a URI
  (\<open>encodeURIComponent\<close> of ECMA-262): only the letters, the digits and the marks are left
  unescaped, so the encoded text holds no character that delimits the parts of a URI.
  The source does not call it; it is what the specification's words "the query text
  percent-encoded" ask of the URL, to compare with what \<open>encodeURI\<close> writes.
\<close>

definition encodeURIComponent :: "jsstring \<Rightarrow> uri_failure + jsstring" where
  "encodeURIComponent s = Encode uriUnescaped s"

text \<open>
  \<open>String.prototype.isWellFormed\<close>: no surrogate code unit stands outside a pair. It is
  not called by the source; it names the strings on which \<open>encodeURI\<close> returns.
\<close>

fun isWellFormed :: "jsstring \<Rightarrow> bool" where
  "isWellFormed [] = True"
| "isWellFormed [c] = (\<not> is_lead c \<and> \<not> is_trail c)"
| "isWellFormed (c # d # ds) =
     (if is_lead c then is_trail d \<and> isWellFormed ds
      else \<not> is_trail c \<and> isWellFormed (d # ds))"

text \<open>The characters a URI may hold unescaped, and the percent sign.\<close>

definition uri_char :: "code_unit \<Rightarrow> bool" where
  "uri_char c = (unescaped c \<or> c = 0x25)"

text \<open>The characters of a percent-encoded component: none of them is reserved.\<close>

definition component_char :: "code_unit \<Rightarrow> bool" where
  "component_char c = (uriUnescaped c \<or> c = 0x25)"

section \<open>The search telemetry store (appwrite.js)\<close>

subsection \<open>Documents and movies\<close>

text \<open>
  A movie object of the metadata service, with the properties the source reads:
  \<open>movie.id\<close> and \<open>movie.poster_path\<close> (\<open>null\<close> when the movie has no poster, here
  \<open>None\<close>). The field \<open>id\<close> is named \<open>id_movie\<close> (\<open>id\<close> is the identity function of HOL).
\<close>

record movie =
  id_movie :: int
  title :: jsstring
  poster_path :: "jsstring option"

text \<open>
  The data of a search record, as \<open>createDocument\<close> receives it, and the stored document:
  the data and the identifier the store assigned (\<open>$id\<close>). The store holds \<open>count\<close> as
  an integer and the client reads it as a number; the \<open>count\<close> of the model is the number
  the client reads, so that the number the client writes is the count it reads back.
\<close>

record doc_data =
  searchTerm :: jsstring
  count :: int
  movie_id :: int
  poster_url :: jsstring

record document = doc_data +
  doc_id :: jsstring

text \<open>
  The object literal given to \<open>updateDocument\<close> holds the attributes to overwrite; an
  attribute it does not name is \<open>None\<close>.
\<close>

record patch =
  p_searchTerm :: "jsstring option"
  p_count :: "int option"
  p_movie_id :: "int option"
  p_poster_url :: "jsstring option"

definition empty_patch :: patch where
  "empty_patch = \<lparr>p_searchTerm = None, p_count = None, p_movie_id = None, p_poster_url = None\<rparr>"

definition apply_patch :: "patch \<Rightarrow> document \<Rightarrow> document" where
  "apply_patch p d =
     d\<lparr>searchTerm := (case p_searchTerm p of None \<Rightarrow> searchTerm d | Some v \<Rightarrow> v),
       count := (case p_count p of None \<Rightarrow> count d | Some v \<Rightarrow> v),
       movie_id := (case p_movie_id p of None \<Rightarrow> movie_id d | Some v \<Rightarrow> v),
       poster_url := (case p_poster_url p of None \<Rightarrow> poster_url d | Some v \<Rightarrow> v)\<rparr>"

subsection \<open>The document store\<close>

text \<open>
  The document store is a hosted database reached through an SDK; neither is code of the
  repository. The definitions of this subsection are the environment that \<open>appwrite.js\<close>
  runs against: the three operations the source calls, on a collection that is the list of
  its documents in insertion order, with the equality filter, the descending sort, the
  result-count limit and the store-assigned unique identifiers that section 6 of the
  specification lists.

  Each call of the store may fail: the request is dropped before the store acts, or the
  store acts and the reply is lost. In both cases the SDK's promise rejects with an error.
\<close>

datatype fault = Delivered | Dropped error | ReplyLost error

datatype query = Query_equal_searchTerm jsstring | Query_limit nat | Query_orderDesc_count

fun matches :: "query list \<Rightarrow> document \<Rightarrow> bool" where
  "matches [] d = True"
| "matches (Query_equal_searchTerm t # qs) d = (searchTerm d = t \<and> matches qs d)"
| "matches (q # qs) d = matches qs d"

text \<open>Without a limit query the store returns at most 25 documents.\<close>

fun limit_of :: "query list \<Rightarrow> nat" where
  "limit_of [] = 25"
| "limit_of (Query_limit n # qs) = n"
| "limit_of (q # qs) = limit_of qs"

text \<open>
  Descending order on \<open>count\<close>; documents of equal count keep their insertion order (the
  spec leaves the order of ties to the store).
\<close>

definition order_docs :: "query list \<Rightarrow> document list \<Rightarrow> document list" where
  "order_docs qs ds =
     (if Query_orderDesc_count \<in> set qs then sort_key (\<lambda>d. - count d) ds else ds)"

definition select_docs :: "query list \<Rightarrow> document list \<Rightarrow> document list" where
  "select_docs qs ds = take (limit_of qs) (order_docs qs (filter (matches qs) ds))"

definition listDocuments :: "fault \<Rightarrow> query list \<Rightarrow> document list \<Rightarrow> error + document list" where
  "listDocuments f qs ds =
     (case f of
        Delivered \<Rightarrow> Inr (select_docs qs ds)
      | Dropped e \<Rightarrow> Inl e
      | ReplyLost e \<Rightarrow> Inl e)"

definition document_not_found :: error where
  "document_not_found = JsError (js ''AppwriteException'') (js ''document_not_found'')"

definition document_already_exists :: error where
  "document_already_exists = JsError (js ''AppwriteException'') (js ''document_already_exists'')"

fun patch_by_id :: "jsstring \<Rightarrow> patch \<Rightarrow> document list \<Rightarrow> document list" where
  "patch_by_id i p [] = []"
| "patch_by_id i p (d # ds) =
     (if doc_id d = i then apply_patch p d # ds else d # patch_by_id i p ds)"

definition updateDocument ::
  "fault \<Rightarrow> jsstring \<Rightarrow> patch \<Rightarrow> document list \<Rightarrow> (error + unit) \<times> document list" where
  "updateDocument f i p ds =
     (case f of
        Dropped e \<Rightarrow> (Inl e, ds)
      | ReplyLost e \<Rightarrow> (Inl e, patch_by_id i p ds)
      | Delivered \<Rightarrow>
          if i \<in> set (map doc_id ds) then (Inr (), patch_by_id i p ds)
          else (Inl document_not_found, ds))"

definition insert_doc :: "jsstring \<Rightarrow> doc_data \<Rightarrow> document list \<Rightarrow> document list" where
  "insert_doc i dat ds =
     (if i \<in> set (map doc_id ds) then ds
      else ds @ [\<lparr>searchTerm = searchTerm dat, count = count dat, movie_id = movie_id dat,
                   poster_url = poster_url dat, doc_id = i\<rparr>])"

definition createDocument ::
  "fault \<Rightarrow> jsstring \<Rightarrow> doc_data \<Rightarrow> document list \<Rightarrow> (error + unit) \<times> document list" where
  "createDocument f i dat ds =
     (case f of
        Dropped e \<Rightarrow> (Inl e, ds)
      | ReplyLost e \<Rightarrow> (Inl e, insert_doc i dat ds)
      | Delivered \<Rightarrow>
          if i \<in> set (map doc_id ds) then (Inl document_already_exists, ds)
          else (Inr (), insert_doc i dat ds))"

subsection \<open>The world outside the component\<close>

text \<open>
  What the two modules act on besides the component's own state: the collection of the
  store, the console, and the URLs requested from the movie service.
\<close>

datatype console_arg = Str jsstring | Obj error

datatype console_entry = Console_log console_arg | Console_error console_arg

record world =
  store :: "document list"
  console :: "console_entry list"
  requests :: "jsstring list"

text \<open>
  What the store does at the calls of one run of \<open>updateSearchCount\<close>: the fate of each
  request, and the identifier the store assigns for \<open>ID.unique()\<close>.
\<close>

record store_env =
  listFault :: fault
  updateFault :: fault
  createFault :: fault
  newId :: jsstring

subsection \<open>updateSearchCount\<close>

text \<open>A template literal writes \<open>null\<close> as the text \<open>null\<close>.\<close>

definition template_string :: "jsstring option \<Rightarrow> jsstring" where
  "template_string v = (case v of None \<Rightarrow> js ''null'' | Some s \<Rightarrow> s)"

definition poster_url_of :: "movie \<Rightarrow> jsstring" where
  "poster_url_of m = js ''https://image.tmdb.org/t/p/w500'' @ template_string (poster_path m)"

text \<open>The body of the \<open>try\<close> block: an error of a store call leaves the block at once.\<close>

definition updateSearchCount_try ::
  "store_env \<Rightarrow> jsstring \<Rightarrow> movie \<Rightarrow> world \<Rightarrow> (error + unit) \<times> world" where
  "updateSearchCount_try env term m w =
     (case listDocuments (listFault env) [Query_equal_searchTerm term] (store w) of
        Inl e \<Rightarrow> (Inl e, w)
      | Inr documents \<Rightarrow>
          if length documents > 0 then
            (let doc = documents ! 0;
                 (r, ds) = updateDocument (updateFault env) (doc_id doc)
                             (empty_patch\<lparr>p_count := Some (number_add (number_of (count doc)) 1)\<rparr>)
                             (store w)
             in (r, w\<lparr>store := ds\<rparr>))
          else
            (let (r, ds) = createDocument (createFault env) (newId env)
                             \<lparr>searchTerm = term, count = 1, movie_id = id_movie m,
                              poster_url = poster_url_of m\<rparr> (store w)
             in (r, w\<lparr>store := ds\<rparr>)))"

text \<open>The \<open>catch\<close> block: \<open>console.log(error)\<close>, and the function returns normally.\<close>

definition updateSearchCount_catch :: "error \<Rightarrow> world \<Rightarrow> (error + unit) \<times> world" where
  "updateSearchCount_catch e w = (Inr (), w\<lparr>console := console w @ [Console_log (Obj e)]\<rparr>)"

text \<open>
  The result of an async function: \<open>Inr v\<close> when its promise resolves with \<open>v\<close>, \<open>Inl e\<close>
  when it rejects with \<open>e\<close>.
\<close>

definition updateSearchCount ::
  "store_env \<Rightarrow> jsstring \<Rightarrow> movie \<Rightarrow> world \<Rightarrow> (error + unit) \<times> world" where
  "updateSearchCount env term m w =
     (case updateSearchCount_try env term m w of
        (Inl e, w') \<Rightarrow> updateSearchCount_catch e w'
      | (Inr u, w') \<Rightarrow> (Inr u, w'))"

text \<open>The world after \<open>console.log(error)\<close>.\<close>

definition logged :: "error \<Rightarrow> world \<Rightarrow> world" where
  "logged e w = w\<lparr>console := console w @ [Console_log (Obj e)]\<rparr>"

text \<open>Calls made one after the other, each completing before the next starts.\<close>

fun run_searches :: "(store_env \<times> jsstring \<times> movie) list \<Rightarrow> world \<Rightarrow> world" where
  "run_searches [] w = w"
| "run_searches ((env, term, m) # cs) w = run_searches cs (snd (updateSearchCount env term m w))"

subsection \<open>getTrendingMovies\<close>

text \<open>
  The function returns \<open>result.documents\<close> from the \<open>try\<close> block; after the \<open>catch\<close>
  block it ends without a \<open>return\<close>, so its value is \<open>undefined\<close>, here \<open>None\<close>.
\<close>

definition getTrendingMovies_try :: "fault \<Rightarrow> world \<Rightarrow> (error + document list option) \<times> world" where
  "getTrendingMovies_try f w =
     (case listDocuments f [Query_limit 5, Query_orderDesc_count] (store w) of
        Inl e \<Rightarrow> (Inl e, w)
      | Inr documents \<Rightarrow> (Inr (Some documents), w))"

definition getTrendingMovies_catch ::
  "error \<Rightarrow> world \<Rightarrow> (error + document list option) \<times> world" where
  "getTrendingMovies_catch e w = (Inr None, w\<lparr>console := console w @ [Console_error (Obj e)]\<rparr>)"

definition getTrendingMovies :: "fault \<Rightarrow> world \<Rightarrow> (error + document list option) \<times> world" where
  "getTrendingMovies f w =
     (case getTrendingMovies_try f w of
        (Inl e, w') \<Rightarrow> getTrendingMovies_catch e w'
      | (Inr v, w') \<Rightarrow> (Inr v, w'))"

text \<open>At most one search record for each search term.\<close>

definition unique_terms :: "document list \<Rightarrow> bool" where
  "unique_terms ds = distinct (map searchTerm ds)"

definition records_of :: "jsstring \<Rightarrow> document list \<Rightarrow> document list" where
  "records_of t ds = filter (\<lambda>d. searchTerm d = t) ds"

definition no_fault :: "store_env \<Rightarrow> bool" where
  "no_fault env =
     (listFault env = Delivered \<and> updateFault env = Delivered \<and> createFault env = Delivered)"

section \<open>The movie query adapter (App.jsx)\<close>

subsection \<open>The component's state and the movie service\<close>

text \<open>The state cells of the \<open>App\<close> component, one field for each \<open>useState\<close>.\<close>

record app_state =
  searchTerm_cell :: jsstring
  errorMessage :: jsstring
  moviesList :: "movie list"
  trendingMovies :: "document list option"
  isLoading :: bool
  isTrendingLoading :: bool
  trendingError :: jsstring
  debounceSearchTerm :: jsstring

text \<open>
  The parsed body of a response, with the properties the source reads: \<open>data.response\<close>,
  \<open>data.Error\<close> and \<open>data.results\<close>, each \<open>None\<close> when the body does not hold it. A body
  that is the JSON value \<open>null\<close> is \<open>Null\<close>: reading a property of it throws. Any other
  JSON value without the three properties reads as an object without them.
\<close>

record body =
  response :: "jsstring option"
  Error :: "jsstring option"
  results :: "movie list option"

datatype json_value = Null | Object body

text \<open>
  A response has the flag \<open>response.ok\<close> and the outcome of \<open>response.json()\<close>, which
  rejects when the body is not JSON. \<open>fetch\<close> itself rejects on a network failure.
\<close>

record http_response =
  ok :: bool
  json :: "error + json_value"

record env =
  fetch :: "jsstring \<Rightarrow> error + http_response"
  telemetry :: store_env
  engine :: engine

definition API_BASE_URL :: jsstring where
  "API_BASE_URL = js ''https://api.themoviedb.org/3''"

subsection \<open>fetchMovies\<close>

text \<open>
  The conditional expression that builds \<open>endpoint\<close>: a string is truthy when it is not
  empty.
\<close>

definition endpoint_of :: "jsstring \<Rightarrow> uri_failure + jsstring" where
  "endpoint_of query =
     (if query \<noteq> [] then
        (case encodeURI query of
           Inl e \<Rightarrow> Inl e
         | Inr encoded \<Rightarrow> Inr (API_BASE_URL @ js ''/search/movie?query='' @ encoded))
      else Inr (API_BASE_URL @ js ''/discover/movie?sort_by=popularity.desc''))"

text \<open>\<open>data.Error || 'Failed to fetch movies'\<close>: an absent or empty \<open>Error\<close> is falsy.\<close>

definition error_or_default :: "jsstring option \<Rightarrow> jsstring" where
  "error_or_default v =
     (case v of
        None \<Rightarrow> js ''Failed to fetch movies''
      | Some s \<Rightarrow> if s \<noteq> [] then s else js ''Failed to fetch movies'')"

text \<open>\<open>data.results || []\<close>: an array, also an empty one, is truthy.\<close>

definition results_or_empty :: "movie list option \<Rightarrow> movie list" where
  "results_or_empty v = (case v of None \<Rightarrow> [] | Some rs \<Rightarrow> rs)"

text \<open>
  The body of the \<open>try\<close> block. \<open>Inl e\<close> is an exception that leaves the block, \<open>Inr ()\<close>
  its normal end, also by the \<open>return\<close> of the error-shaped body.
\<close>

definition fetchMovies_try ::
  "env \<Rightarrow> jsstring \<Rightarrow> app_state \<times> world \<Rightarrow> (error + unit) \<times> app_state \<times> world" where
  "fetchMovies_try ev query s =
     (case s of (a, w) \<Rightarrow>
      (case endpoint_of query of
         Inl URIError \<Rightarrow> (Inl (URIError_of (uri_malformed (engine ev))), a, w)
       | Inr endpoint \<Rightarrow>
           (let w1 = w\<lparr>requests := requests w @ [endpoint]\<rparr> in
            case fetch ev endpoint of
              Inl e \<Rightarrow> (Inl e, a, w1)
            | Inr resp \<Rightarrow>
                if \<not> ok resp then (Inl (Error_of (js ''Failed to fetch movies'')), a, w1)
                else
                  (case json resp of
                     Inl e \<Rightarrow> (Inl e, a, w1)
                   | Inr Null \<Rightarrow>
                       (Inl (TypeError_of (read_of_null (engine ev) (js ''response''))), a, w1)
                   | Inr (Object data) \<Rightarrow>
                       if response data = Some (js ''False'') then
                         (Inr (), a\<lparr>errorMessage := error_or_default (Error data),
                                     moviesList := []\<rparr>, w1)
                       else
                         (let a1 = a\<lparr>moviesList := results_or_empty (results data)\<rparr> in
                          if query \<noteq> [] then
                            (case results data of
                               None \<Rightarrow>
                                 (Inl (TypeError_of (read_of_undefined (engine ev) (js ''length''))),
                                  a1, w1)
                             | Some rs \<Rightarrow>
                                 if length rs > 0 then
                                   (case updateSearchCount (telemetry ev) query (rs ! 0) w1 of
                                      (r, w2) \<Rightarrow> (r, a1, w2))
                                 else (Inr (), a1, w1))
                          else (Inr (), a1, w1))))))"

definition fetchMovies_catch ::
  "error \<Rightarrow> app_state \<times> world \<Rightarrow> (error + unit) \<times> app_state \<times> world" where
  "fetchMovies_catch e s =
     (case s of (a, w) \<Rightarrow>
        (Inr (),
         a\<lparr>errorMessage := js ''Error fetching movies. Please try again later.''\<rparr>,
         w\<lparr>console := console w
              @ [Console_log (Str (js ''Error fetching movies: '' @ toString_error e))]\<rparr>))"

definition fetchMovies_finally ::
  "app_state \<times> world \<Rightarrow> (error + unit) \<times> app_state \<times> world" where
  "fetchMovies_finally s = (case s of (a, w) \<Rightarrow> (Inr (), a\<lparr>isLoading := False\<rparr>, w))"

text \<open>
  \<open>try\<close> with \<open>catch\<close>: the handler runs on an exception of the body, from the state the
  body left. \<open>try\<close> with \<open>finally\<close>: the finaliser always runs; the completion is the
  body's unless the finaliser throws.
\<close>

definition try_catch ::
  "('s \<Rightarrow> (error + 'a) \<times> 's) \<Rightarrow> (error \<Rightarrow> 's \<Rightarrow> (error + 'a) \<times> 's) \<Rightarrow> 's \<Rightarrow> (error + 'a) \<times> 's" where
  "try_catch blk handler s =
     (case blk s of (Inl e, s') \<Rightarrow> handler e s' | (Inr v, s') \<Rightarrow> (Inr v, s'))"

definition try_finally ::
  "('s \<Rightarrow> (error + 'a) \<times> 's) \<Rightarrow> ('s \<Rightarrow> (error + unit) \<times> 's) \<Rightarrow> 's \<Rightarrow> (error + 'a) \<times> 's" where
  "try_finally blk finaliser s =
     (case blk s of (r, s') \<Rightarrow>
        (case finaliser s' of (Inl e, s'') \<Rightarrow> (Inl e, s'') | (Inr u, s'') \<Rightarrow> (r, s'')))"

text \<open>
  The argument is \<open>None\<close> when the caller passes none: the parameter then takes its
  default, the empty string.
\<close>

definition query_or_default :: "jsstring option \<Rightarrow> jsstring" where
  "query_or_default arg = (case arg of None \<Rightarrow> [] | Some q \<Rightarrow> q)"

definition fetchMovies ::
  "env \<Rightarrow> jsstring option \<Rightarrow> app_state \<times> world \<Rightarrow> (error + unit) \<times> app_state \<times> world" where
  "fetchMovies ev arg s =
     (case s of (a, w) \<Rightarrow>
        (let query = query_or_default arg;
             a1 = a\<lparr>isLoading := True\<rparr>;
             a2 = a1\<lparr>errorMessage := []\<rparr>
         in try_finally (try_catch (fetchMovies_try ev query) fetchMovies_catch)
              fetchMovies_finally (a2, w)))"

section \<open>Example data\<close>

text \<open>A movie, a search record for it, and stores and environments to evaluate the functions on.\<close>

definition dune_movie :: movie where
  "dune_movie = \<lparr>id_movie = 438631, title = js ''Dune'', poster_path = Some (js ''/d5NXSklXo0qyIYkgV94XAgMIckC.jpg'')\<rparr>"

definition dune_doc :: document where
  "dune_doc = \<lparr>searchTerm = js ''dune'', count = 3, movie_id = 438631,
     poster_url = js ''https://image.tmdb.org/t/p/w500/d5NXSklXo0qyIYkgV94XAgMIckC.jpg'',
     doc_id = js ''a1''\<rparr>"

definition quiet_env :: store_env where
  "quiet_env = \<lparr>listFault = Delivered, updateFault = Delivered, createFault = Delivered,
     newId = js ''b2''\<rparr>"

definition empty_world :: world where
  "empty_world = \<lparr>store = [], console = [], requests = []\<rparr>"

definition dune_world :: world where
  "dune_world = \<lparr>store = [dune_doc], console = [], requests = []\<rparr>"

definition arrival_env :: store_env where
  "arrival_env = \<lparr>listFault = Delivered, updateFault = Delivered,
     createFault = ReplyLost document_not_found, newId = js ''c3''\<rparr>"

definition outage :: error where
  "outage = JsError (js ''AppwriteException'') (js ''Network request failed'')"

definition failing_env :: "fault \<Rightarrow> fault \<Rightarrow> fault \<Rightarrow> store_env" where
  "failing_env l u c = \<lparr>listFault = l, updateFault = u, createFault = c, newId = js ''b2''\<rparr>"

text \<open>A collection of six records with the counts 3, 1, 5, 2, 4, 0, in this order.\<close>

definition term_doc :: "jsstring \<Rightarrow> int \<Rightarrow> document" where
  "term_doc t c = \<lparr>searchTerm = t, count = c, movie_id = 0,
     poster_url = js ''https://image.tmdb.org/t/p/w500null'', doc_id = js ''id-'' @ t\<rparr>"

definition six_world :: world where
  "six_world = \<lparr>store = [term_doc (js ''a'') 3, term_doc (js ''b'') 1, term_doc (js ''c'') 5,
       term_doc (js ''d'') 2, term_doc (js ''e'') 4, term_doc (js ''f'') 0],
     console = [], requests = []\<rparr>"

text \<open>
  The state of the component when it mounts, and the same state holding a list of movies
  from an earlier fetch.
\<close>

definition initial_state :: app_state where
  "initial_state = \<lparr>searchTerm_cell = [], errorMessage = [], moviesList = [],
     trendingMovies = Some [], isLoading = False, isTrendingLoading = False,
     trendingError = [], debounceSearchTerm = []\<rparr>"

definition loaded_state :: app_state where
  "loaded_state = initial_state\<lparr>moviesList := [dune_movie]\<rparr>"

text \<open>
  An engine with the message texts of V8, and a movie service on it that gives the same
  answer to every request.
\<close>

definition v8 :: engine where
  "v8 = \<lparr>uri_malformed = js ''URI malformed'',
     read_of_undefined =
       (\<lambda>p. js ''Cannot read properties of undefined (reading '' @ [0x27] @ p @ [0x27] @ js '')''),
     read_of_null =
       (\<lambda>p. js ''Cannot read properties of null (reading '' @ [0x27] @ p @ [0x27] @ js '')'')\<rparr>"

definition service_env :: "error + http_response \<Rightarrow> env" where
  "service_env r = \<lparr>fetch = (\<lambda>u. r), telemetry = quiet_env, engine = v8\<rparr>"

definition empty_body :: body where
  "empty_body = \<lparr>response = None, Error = None, results = None\<rparr>"

definition status_500 :: http_response where
  "status_500 = \<lparr>ok = False, json = Inr (Object empty_body)\<rparr>"

definition not_json :: http_response where
  "not_json = \<lparr>ok = True, json = Inl (JsError (js ''SyntaxError'') (js ''Unexpected token''))\<rparr>"

definition offline :: error where
  "offline = JsError (js ''TypeError'') (js ''Failed to fetch'')"

definition ok_with :: "body \<Rightarrow> http_response" where
  "ok_with b = \<lparr>ok = True, json = Inr (Object b)\<rparr>"

text \<open>The record for \<open>dune\<close> with the count \<open>2^53\<close>.\<close>

definition big_doc :: document where
  "big_doc = dune_doc\<lparr>count := 9007199254740992\<rparr>"

definition big_world :: world where
  "big_world = \<lparr>store = [big_doc], console = [], requests = []\<rparr>"

section \<open>Properties of the numbers\<close>

lemma ulp_small: "n < 2 ^ 53 \<Longrightarrow> ulp n = 1"
  by simp

lemma ulp_two_53: "ulp (2 ^ 53) = 2"
proof -
  have "ulp (2 ^ 53) = 2 * ulp (2 ^ 53 div 2)"
    by (subst ulp.simps) simp
  also have "(2 ^ 53 div 2 :: nat) < 2 ^ 53" by simp
  then have "ulp (2 ^ 53 div 2) = 1" by (rule ulp_small)
  finally show ?thesis by simp
qed

lemma ulp_two_53_1: "ulp (2 ^ 53 + 1) = 2"
proof -
  have "ulp (2 ^ 53 + 1) = 2 * ulp ((2 ^ 53 + 1) div 2)"
    by (subst ulp.simps) simp
  also have "((2 ^ 53 + 1) div 2 :: nat) < 2 ^ 53" by simp
  then have "ulp ((2 ^ 53 + 1) div 2) = 1" by (rule ulp_small)
  finally show ?thesis by simp
qed

declare ulp.simps [simp del]

lemma nearest_double_exact: "\<bar>x\<bar> \<le> 2 ^ 53 \<Longrightarrow> nearest_double x = x"
proof (cases "\<bar>x\<bar> < 2 ^ 53")
  case True
  then have "nat \<bar>x\<bar> < 2 ^ 53" by simp
  then have "ulp (nat \<bar>x\<bar>) = 1" by (rule ulp_small)
  then show ?thesis by (simp add: nearest_double_def)
next
  case False
  assume "\<bar>x\<bar> \<le> 2 ^ 53"
  with False have a: "\<bar>x\<bar> = 2 ^ 53" by simp
  then have "nat \<bar>x\<bar> = 2 ^ 53" by simp
  then have u: "ulp (nat \<bar>x\<bar>) = 2" by (simp only: ulp_two_53)
  from a have "x = 2 ^ 53 \<or> x = - (2 ^ 53)" by linarith
  then show ?thesis
    by (auto simp: nearest_double_def u)
qed

text \<open>Adding 1 is exact from \<open>- 2^53\<close> up to, but not at, \<open>2^53\<close>.\<close>

lemma number_add_exact:
  "- (2 ^ 53) \<le> c \<Longrightarrow> c < 2 ^ 53 \<Longrightarrow> number_add (number_of c) 1 = c + 1"
  by (simp add: number_add_def number_of_def nearest_double_exact)

lemma number_add_two_53: "number_add (number_of (2 ^ 53)) 1 = 2 ^ 53"
proof -
  have r: "number_of (2 ^ 53) = 2 ^ 53"
    by (simp add: number_of_def nearest_double_exact)
  have "nat \<bar>2 ^ 53 + 1 :: int\<bar> = 2 ^ 53 + 1" by simp
  then have u: "ulp (nat \<bar>2 ^ 53 + 1 :: int\<bar>) = 2" by (simp only: ulp_two_53_1)
  have "number_add (2 ^ 53) 1 = 2 ^ 53"
    unfolding number_add_def nearest_double_def u by simp
  then show ?thesis by (simp only: r)
qed

section \<open>Properties of updateSearchCount\<close>

subsection \<open>The store's queries and patches\<close>

lemma select_equal: "select_docs [Query_equal_searchTerm t] ds = take 25 (records_of t ds)"
proof -
  have "matches [Query_equal_searchTerm t] = (\<lambda>d. searchTerm d = t)"
    by (rule ext) simp
  then show ?thesis
    by (simp add: select_docs_def order_docs_def records_of_def)
qed

lemma select_equal_empty: "select_docs [Query_equal_searchTerm t] ds = [] \<longleftrightarrow> records_of t ds = []"
  by (simp add: select_equal)

lemma select_equal_first:
  "records_of t ds = d # rest \<Longrightarrow> select_docs [Query_equal_searchTerm t] ds ! 0 = d"
  by (simp add: select_equal)

lemma apply_count_patch:
  "apply_patch (empty_patch\<lparr>p_count := Some c\<rparr>) d = d\<lparr>count := c\<rparr>"
  by (simp add: apply_patch_def empty_patch_def)

lemma patch_by_id_map:
  "distinct (map doc_id ds) \<Longrightarrow>
   patch_by_id i p ds = map (\<lambda>x. if doc_id x = i then apply_patch p x else x) ds"
proof (induction ds)
  case Nil
  show ?case by simp
next
  case (Cons d ds)
  show ?case
  proof (cases "doc_id d = i")
    case True
    with Cons.prems have "i \<notin> doc_id ` set ds" by simp
    then have "\<forall>x\<in>set ds. doc_id x \<noteq> i" by blast
    then have "map (\<lambda>x. if doc_id x = i then apply_patch p x else x) ds = ds"
      by (simp add: map_idI)
    with True show ?thesis by simp
  next
    case False
    with Cons show ?thesis by simp
  qed
qed

lemma patch_by_id_fields:
  "map searchTerm (patch_by_id i (empty_patch\<lparr>p_count := Some c\<rparr>) ds) = map searchTerm ds"
  "map movie_id (patch_by_id i (empty_patch\<lparr>p_count := Some c\<rparr>) ds) = map movie_id ds"
  "map poster_url (patch_by_id i (empty_patch\<lparr>p_count := Some c\<rparr>) ds) = map poster_url ds"
  "map doc_id (patch_by_id i (empty_patch\<lparr>p_count := Some c\<rparr>) ds) = map doc_id ds"
  by (induction ds) (simp_all add: apply_count_patch)

lemma records_of_in: "records_of t ds = d # rest \<Longrightarrow> d \<in> set ds \<and> searchTerm d = t"
proof -
  assume "records_of t ds = d # rest"
  then have "d \<in> set (filter (\<lambda>d. searchTerm d = t) ds)"
    by (simp add: records_of_def)
  then show ?thesis by simp
qed

subsection \<open>Update, create, and two calls in sequence\<close>

lemma updateSearchCount_resolves: "fst (updateSearchCount env t m w) = Inr ()"
  by (auto simp: updateSearchCount_def updateSearchCount_try_def updateSearchCount_catch_def
      listDocuments_def updateDocument_def createDocument_def Let_def
      split: sum.splits fault.splits prod.splits if_splits)

lemma found_step:
  assumes nf: "no_fault env" and ids: "distinct (map doc_id (store w))"
    and rec: "records_of t (store w) = d # rest"
    and lo: "- (2 ^ 53) \<le> count d" and hi: "count d < 2 ^ 53"
  shows "updateSearchCount env t m w =
     (Inr (), w\<lparr>store := map (\<lambda>x. if doc_id x = doc_id d then x\<lparr>count := count x + 1\<rparr> else x)
                             (store w)\<rparr>)"
proof -
  have sel: "select_docs [Query_equal_searchTerm t] (store w) \<noteq> []"
    using rec by (simp add: select_equal_empty)
  have first: "select_docs [Query_equal_searchTerm t] (store w) ! 0 = d"
    using rec by (rule select_equal_first)
  have mem: "doc_id d \<in> set (map doc_id (store w))"
    using records_of_in [OF rec] by simp
  have inc: "number_add (number_of (count d)) 1 = count d + 1"
    using lo hi by (rule number_add_exact)
  have "patch_by_id (doc_id d) (empty_patch\<lparr>p_count := Some (count d + 1)\<rparr>) (store w) =
      map (\<lambda>x. if doc_id x = doc_id d then x\<lparr>count := count d + 1\<rparr> else x) (store w)"
    by (simp add: patch_by_id_map [OF ids] apply_count_patch)
  also have "\<dots> = map (\<lambda>x. if doc_id x = doc_id d then x\<lparr>count := count x + 1\<rparr> else x) (store w)"
  proof (rule map_cong [OF refl])
    fix x assume "x \<in> set (store w)"
    with ids records_of_in [OF rec] have "doc_id x = doc_id d \<Longrightarrow> x = d"
      by (meson distinct_map inj_onD)
    then show "(if doc_id x = doc_id d then x\<lparr>count := count d + 1\<rparr> else x) =
        (if doc_id x = doc_id d then x\<lparr>count := count x + 1\<rparr> else x)"
      by auto
  qed
  finally have patched: "patch_by_id (doc_id d) (empty_patch\<lparr>p_count := Some (count d + 1)\<rparr>) (store w) =
      map (\<lambda>x. if doc_id x = doc_id d then x\<lparr>count := count x + 1\<rparr> else x) (store w)" .
  from nf have f: "listFault env = Delivered" "updateFault env = Delivered"
    by (simp_all add: no_fault_def)
  show ?thesis
    using sel mem
    by (simp add: updateSearchCount_def updateSearchCount_try_def listDocuments_def
        updateDocument_def f first inc patched Let_def)
qed

lemma found_records:
  assumes ids: "distinct (map doc_id ds)" and rec: "records_of t ds = d # rest"
  shows "records_of t (map (\<lambda>x. if doc_id x = doc_id d then x\<lparr>count := count x + 1\<rparr> else x) ds)
     = d\<lparr>count := count d + 1\<rparr> # rest"
proof -
  let ?f = "\<lambda>x. if doc_id x = doc_id d then x\<lparr>count := count x + 1\<rparr> else x"
  have comp: "(\<lambda>x. searchTerm x = t) \<circ> ?f = (\<lambda>x. searchTerm x = t)"
    by (rule ext) simp
  have "distinct (map doc_id (records_of t ds))"
    unfolding records_of_def using ids by (rule distinct_map_filter)
  with rec have "doc_id d \<notin> doc_id ` set rest" by simp
  then have "\<forall>x\<in>set rest. doc_id x \<noteq> doc_id d" by (metis imageI)
  then have rest: "map ?f rest = rest" by (simp add: map_idI)
  have "records_of t (map ?f ds) = map ?f (records_of t ds)"
    by (simp add: records_of_def filter_map comp)
  with rec rest show ?thesis by simp
qed

lemma create_step:
  assumes nf: "no_fault env" and rec: "records_of t (store w) = []"
    and fresh: "newId env \<notin> set (map doc_id (store w))"
  shows "updateSearchCount env t m w =
     (Inr (), w\<lparr>store := store w @ [\<lparr>searchTerm = t, count = 1, movie_id = id_movie m,
        poster_url = js ''https://image.tmdb.org/t/p/w500'' @ template_string (poster_path m),
        doc_id = newId env\<rparr>]\<rparr>)"
proof -
  have sel: "select_docs [Query_equal_searchTerm t] (store w) = []"
    using rec by (simp add: select_equal_empty)
  from nf have f: "listFault env = Delivered" "createFault env = Delivered"
    by (simp_all add: no_fault_def)
  show ?thesis
    using fresh
    by (simp add: updateSearchCount_def updateSearchCount_try_def listDocuments_def
        createDocument_def insert_doc_def poster_url_of_def f sel)
qed

lemma patch_by_id_last:
  "i \<notin> set (map doc_id ds) \<Longrightarrow> doc_id d = i \<Longrightarrow>
   patch_by_id i p (ds @ [d]) = ds @ [apply_patch p d]"
  by (induction ds) auto

lemma records_of_append: "records_of t (xs @ ys) = records_of t xs @ records_of t ys"
  by (simp add: records_of_def)

lemma twice_step:
  assumes nf1: "no_fault env1" and nf2: "no_fault env2"
    and rec: "records_of t (store w) = []"
    and fresh: "newId env1 \<notin> set (map doc_id (store w))"
  shows "records_of t (store (run_searches [(env1, t, m1), (env2, t, m2)] w)) =
     [\<lparr>searchTerm = t, count = 2, movie_id = id_movie m1,
       poster_url = js ''https://image.tmdb.org/t/p/w500'' @ template_string (poster_path m1),
       doc_id = newId env1\<rparr>]"
proof -
  let ?new = "\<lparr>searchTerm = t, count = 1, movie_id = id_movie m1,
       poster_url = js ''https://image.tmdb.org/t/p/w500'' @ template_string (poster_path m1),
       doc_id = newId env1\<rparr>"
  let ?w1 = "w\<lparr>store := store w @ [?new]\<rparr>"
  have w1: "snd (updateSearchCount env1 t m1 w) = ?w1"
    by (simp add: create_step [OF nf1 rec fresh])
  have rec1: "records_of t (store ?w1) = [?new]"
    by (simp add: records_of_append rec) (simp add: records_of_def)
  have sel: "select_docs [Query_equal_searchTerm t] (store ?w1) = [?new]"
    using rec1 by (simp add: select_equal)
  from nf2 have f: "listFault env2 = Delivered" "updateFault env2 = Delivered"
    by (simp_all add: no_fault_def)
  have patched: "patch_by_id (newId env1) (empty_patch\<lparr>p_count := Some 2\<rparr>) (store w @ [?new])
      = store w @ [?new\<lparr>count := 2\<rparr>]"
    using fresh by (simp add: patch_by_id_last apply_count_patch)
  have "snd (updateSearchCount env2 t m2 ?w1) = w\<lparr>store := store w @ [?new\<lparr>count := 2\<rparr>]\<rparr>"
    using sel patched
    by (simp add: updateSearchCount_def updateSearchCount_try_def listDocuments_def
        updateDocument_def f Let_def number_add_exact)
  then have "store (run_searches [(env1, t, m1), (env2, t, m2)] w) = store w @ [?new\<lparr>count := 2\<rparr>]"
    by (simp add: w1)
  then show ?thesis
    by (simp add: records_of_append rec) (simp add: records_of_def)
qed

lemma poster_url_cases:
  "js ''https://image.tmdb.org/t/p/w500'' @ template_string (poster_path m) =
     (case poster_path m of
        None \<Rightarrow> js ''https://image.tmdb.org/t/p/w500null''
      | Some p \<Rightarrow> js ''https://image.tmdb.org/t/p/w500'' @ p)"
  by (simp add: template_string_def js_def split: option.splits)

text \<open>
  Claim C1, as the code has it. When no call of the store fails: a call of
  \<open>updateSearchCount\<close> that finds a record \<open>d\<close> for the term (the first of the records the
  lookup returns, in a collection whose identifiers are distinct), with a count from
  \<open>- 2^53\<close> up to, but not at, \<open>2^53\<close>, adds exactly 1 to the count of \<open>d\<close> and leaves every
  other document as it was; a call that finds none, the store accepting the new
  identifier, appends one record with count 1, \<open>movie_id\<close> the movie's \<open>id\<close> and
  \<open>poster_url\<close> the text \<open>https://image.tmdb.org/t/p/w500\<close> followed by the movie's
  \<open>poster_path\<close>, or by \<open>null\<close> when the movie has none; and two calls in sequence with
  the same term, from a collection with no record for it, leave exactly one record for
  the term, with count 2.
\<close>

theorem updateSearchCount_upsert:
  "(no_fault env \<longrightarrow> distinct (map doc_id (store w)) \<longrightarrow> records_of t (store w) = d # rest \<longrightarrow>
    - (2 ^ 53) \<le> count d \<longrightarrow> count d < 2 ^ 53 \<longrightarrow>
      fst (updateSearchCount env t m w) = Inr ()
      \<and> store (snd (updateSearchCount env t m w)) =
          map (\<lambda>x. if doc_id x = doc_id d then x\<lparr>count := count x + 1\<rparr> else x) (store w)
      \<and> records_of t (store (snd (updateSearchCount env t m w))) = d\<lparr>count := count d + 1\<rparr> # rest)
   \<and> (no_fault env \<longrightarrow> records_of t (store v) = [] \<longrightarrow> newId env \<notin> set (map doc_id (store v)) \<longrightarrow>
      fst (updateSearchCount env t m v) = Inr ()
      \<and> store (snd (updateSearchCount env t m v)) =
          store v @ [\<lparr>searchTerm = t, count = 1, movie_id = id_movie m,
            poster_url =
              (case poster_path m of
                 None \<Rightarrow> js ''https://image.tmdb.org/t/p/w500null''
               | Some p \<Rightarrow> js ''https://image.tmdb.org/t/p/w500'' @ p),
            doc_id = newId env\<rparr>])
   \<and> (no_fault env1 \<longrightarrow> no_fault env2 \<longrightarrow> records_of t (store v) = [] \<longrightarrow>
       newId env1 \<notin> set (map doc_id (store v)) \<longrightarrow>
      (\<exists>r. records_of t (store (run_searches [(env1, t, m1), (env2, t, m2)] v)) = [r]
            \<and> count r = 2))"
proof (intro conjI impI)
  assume a: "no_fault env" "distinct (map doc_id (store w))" "records_of t (store w) = d # rest"
    "- (2 ^ 53) \<le> count d" "count d < 2 ^ 53"
  show "fst (updateSearchCount env t m w) = Inr ()"
    by (simp add: found_step [OF a])
  show "store (snd (updateSearchCount env t m w)) =
          map (\<lambda>x. if doc_id x = doc_id d then x\<lparr>count := count x + 1\<rparr> else x) (store w)"
    by (simp add: found_step [OF a])
  then show "records_of t (store (snd (updateSearchCount env t m w))) = d\<lparr>count := count d + 1\<rparr> # rest"
    by (simp add: found_records [OF a(2,3)])
next
  assume a: "no_fault env" "records_of t (store v) = []" "newId env \<notin> set (map doc_id (store v))"
  show "fst (updateSearchCount env t m v) = Inr ()"
    by (simp add: create_step [OF a])
  show "store (snd (updateSearchCount env t m v)) =
          store v @ [\<lparr>searchTerm = t, count = 1, movie_id = id_movie m,
            poster_url =
              (case poster_path m of
                 None \<Rightarrow> js ''https://image.tmdb.org/t/p/w500null''
               | Some p \<Rightarrow> js ''https://image.tmdb.org/t/p/w500'' @ p),
            doc_id = newId env\<rparr>]"
    by (simp add: create_step [OF a] poster_url_cases)
next
  assume a: "no_fault env1" "no_fault env2" "records_of t (store v) = []"
    "newId env1 \<notin> set (map doc_id (store v))"
  show "\<exists>r. records_of t (store (run_searches [(env1, t, m1), (env2, t, m2)] v)) = [r] \<and> count r = 2"
  proof (intro exI conjI)
    show "records_of t (store (run_searches [(env1, t, m1), (env2, t, m2)] v)) =
       [\<lparr>searchTerm = t, count = 2, movie_id = id_movie m1,
         poster_url = js ''https://image.tmdb.org/t/p/w500'' @ template_string (poster_path m1),
         doc_id = newId env1\<rparr>]"
      by (rule twice_step [OF a])
  qed simp
qed

text \<open>
  The theorem at the example data: the record for \<open>dune\<close> goes from count 3 to 4; on the
  empty collection one call creates the record with count 1, with the poster URL of the
  movie or, for a movie without a poster, the URL that ends in \<open>null\<close>; and two calls leave
  count 2.
\<close>

theorem updateSearchCount_upsert_witness:
  "no_fault quiet_env \<and> distinct (map doc_id (store dune_world))
   \<and> records_of (js ''dune'') (store dune_world) = [dune_doc]
   \<and> - (2 ^ 53) \<le> count dune_doc \<and> count dune_doc < 2 ^ 53
   \<and> fst (updateSearchCount quiet_env (js ''dune'') dune_movie dune_world) = Inr ()
   \<and> store (snd (updateSearchCount quiet_env (js ''dune'') dune_movie dune_world))
       = [dune_doc\<lparr>count := 4\<rparr>]
   \<and> records_of (js ''dune'') (store empty_world) = []
   \<and> newId quiet_env \<notin> set (map doc_id (store empty_world))
   \<and> store (snd (updateSearchCount quiet_env (js ''dune'') dune_movie empty_world))
       = [dune_doc\<lparr>count := 1, doc_id := js ''b2''\<rparr>]
   \<and> store (snd (updateSearchCount quiet_env (js ''dune'') (dune_movie\<lparr>poster_path := None\<rparr>)
         empty_world))
       = [dune_doc\<lparr>count := 1, doc_id := js ''b2'',
            poster_url := js ''https://image.tmdb.org/t/p/w500null''\<rparr>]
   \<and> (\<exists>r. records_of (js ''dune'')
         (store (run_searches [(quiet_env, js ''dune'', dune_movie),
                               (quiet_env, js ''dune'', dune_movie)] empty_world)) = [r]
        \<and> count r = 2)"
proof -
  have h1: "no_fault quiet_env"
    by (simp add: no_fault_def quiet_env_def)
  have h2: "distinct (map doc_id (store dune_world))"
    by (simp add: dune_world_def)
  have h3: "records_of (js ''dune'') (store dune_world) = dune_doc # []"
    by (simp add: records_of_def dune_world_def dune_doc_def)
  have h4: "records_of (js ''dune'') (store empty_world) = []"
    by (simp add: records_of_def empty_world_def)
  have h5: "newId quiet_env \<notin> set (map doc_id (store empty_world))"
    by (simp add: empty_world_def)
  have h6: "- (2 ^ 53) \<le> count dune_doc" "count dune_doc < 2 ^ 53"
    by (simp_all add: dune_doc_def)
  note u = updateSearchCount_upsert [where env = quiet_env and w = dune_world
      and t = "js ''dune''" and d = dune_doc and rest = "[]" and m = dune_movie
      and v = empty_world and ?env1.0 = quiet_env and ?env2.0 = quiet_env
      and ?m1.0 = dune_movie and ?m2.0 = dune_movie]
  note n = updateSearchCount_upsert [where env = quiet_env and w = dune_world
      and t = "js ''dune''" and d = dune_doc and rest = "[]"
      and m = "dune_movie\<lparr>poster_path := None\<rparr>"
      and v = empty_world and ?env1.0 = quiet_env and ?env2.0 = quiet_env
      and ?m1.0 = dune_movie and ?m2.0 = dune_movie]
  from u h1 h2 h3 h6 have a: "fst (updateSearchCount quiet_env (js ''dune'') dune_movie dune_world) = Inr ()
      \<and> store (snd (updateSearchCount quiet_env (js ''dune'') dune_movie dune_world)) =
          map (\<lambda>x. if doc_id x = doc_id dune_doc then x\<lparr>count := count x + 1\<rparr> else x) (store dune_world)"
    by blast
  from u h1 h4 h5 have b: "store (snd (updateSearchCount quiet_env (js ''dune'') dune_movie empty_world)) =
          store empty_world @ [\<lparr>searchTerm = js ''dune'', count = 1, movie_id = id_movie dune_movie,
            poster_url =
              (case poster_path dune_movie of
                 None \<Rightarrow> js ''https://image.tmdb.org/t/p/w500null''
               | Some p \<Rightarrow> js ''https://image.tmdb.org/t/p/w500'' @ p),
            doc_id = newId quiet_env\<rparr>]"
    by blast
  from n h1 h4 h5 have b2: "store (snd (updateSearchCount quiet_env (js ''dune'')
          (dune_movie\<lparr>poster_path := None\<rparr>) empty_world)) =
          store empty_world @ [\<lparr>searchTerm = js ''dune'', count = 1,
            movie_id = id_movie (dune_movie\<lparr>poster_path := None\<rparr>),
            poster_url =
              (case poster_path (dune_movie\<lparr>poster_path := None\<rparr>) of
                 None \<Rightarrow> js ''https://image.tmdb.org/t/p/w500null''
               | Some p \<Rightarrow> js ''https://image.tmdb.org/t/p/w500'' @ p),
            doc_id = newId quiet_env\<rparr>]"
    by blast
  from u h1 h4 h5 have c: "\<exists>r. records_of (js ''dune'')
         (store (run_searches [(quiet_env, js ''dune'', dune_movie),
                               (quiet_env, js ''dune'', dune_movie)] empty_world)) = [r]
        \<and> count r = 2"
    by blast
  have a': "map (\<lambda>x. if doc_id x = doc_id dune_doc then x\<lparr>count := count x + 1\<rparr> else x) (store dune_world)
      = [dune_doc\<lparr>count := 4\<rparr>]"
    by (simp add: dune_world_def dune_doc_def)
  have b': "store empty_world @ [\<lparr>searchTerm = js ''dune'', count = 1, movie_id = id_movie dune_movie,
            poster_url =
              (case poster_path dune_movie of
                 None \<Rightarrow> js ''https://image.tmdb.org/t/p/w500null''
               | Some p \<Rightarrow> js ''https://image.tmdb.org/t/p/w500'' @ p),
            doc_id = newId quiet_env\<rparr>] = [dune_doc\<lparr>count := 1, doc_id := js ''b2''\<rparr>]"
    by (simp add: empty_world_def dune_doc_def dune_movie_def quiet_env_def js_def)
  have b2': "store empty_world @ [\<lparr>searchTerm = js ''dune'', count = 1,
            movie_id = id_movie (dune_movie\<lparr>poster_path := None\<rparr>),
            poster_url =
              (case poster_path (dune_movie\<lparr>poster_path := None\<rparr>) of
                 None \<Rightarrow> js ''https://image.tmdb.org/t/p/w500null''
               | Some p \<Rightarrow> js ''https://image.tmdb.org/t/p/w500'' @ p),
            doc_id = newId quiet_env\<rparr>]
       = [dune_doc\<lparr>count := 1, doc_id := js ''b2'',
            poster_url := js ''https://image.tmdb.org/t/p/w500null''\<rparr>]"
    by (simp add: empty_world_def dune_doc_def dune_movie_def quiet_env_def js_def)
  from h1 h2 h3 h4 h5 h6 a b b2 c show ?thesis
    unfolding a' b' b2' by blast
qed

text \<open>
  Claim C1 as stated fails: on a record whose count is \<open>2^53\<close> the sum \<open>doc.count + 1\<close>
  rounds to \<open>2^53\<close>, so the call finds the record, succeeds and writes the same count back.
\<close>

theorem updateSearchCount_count_two_53:
  "records_of (js ''dune'') (store big_world) = [big_doc]
   \<and> count big_doc = 2 ^ 53
   \<and> fst (updateSearchCount quiet_env (js ''dune'') dune_movie big_world) = Inr ()
   \<and> map count (store (snd (updateSearchCount quiet_env (js ''dune'') dune_movie big_world)))
       = [2 ^ 53]
   \<and> map count (store (snd (updateSearchCount quiet_env (js ''dune'') dune_movie big_world)))
       \<noteq> [count big_doc + 1]"
proof -
  have r: "records_of (js ''dune'') (store big_world) = [big_doc]"
    by (simp add: records_of_def big_world_def big_doc_def dune_doc_def)
  have c: "count big_doc = 2 ^ 53"
    by (simp add: big_doc_def)
  have sel: "select_docs [Query_equal_searchTerm (js ''dune'')] (store big_world) = [big_doc]"
    using r by (simp add: select_equal)
  have n: "number_add (number_of (count big_doc)) 1 = 2 ^ 53"
    unfolding c by (rule number_add_two_53)
  have u: "updateSearchCount quiet_env (js ''dune'') dune_movie big_world
      = (Inr (), big_world\<lparr>store := [big_doc\<lparr>count := 2 ^ 53\<rparr>]\<rparr>)"
    by (simp add: updateSearchCount_def updateSearchCount_try_def listDocuments_def sel n
        updateDocument_def quiet_env_def Let_def)
      (simp add: big_world_def apply_count_patch)
  from r c show ?thesis
    by (simp add: u)
qed

subsection \<open>The frame of an update and the invariant of the collection\<close>

lemma found_store_cases:
  assumes l: "listFault env = Delivered" and rec: "records_of t (store w) \<noteq> []"
  shows "store (snd (updateSearchCount env t m w)) = store w
     \<or> (\<exists>i c. store (snd (updateSearchCount env t m w)) =
            patch_by_id i (empty_patch\<lparr>p_count := Some c\<rparr>) (store w))"
proof -
  have sel: "select_docs [Query_equal_searchTerm t] (store w) \<noteq> []"
    using rec by (simp add: select_equal_empty)
  show ?thesis
    using sel
    by (cases "updateFault env")
      (auto simp: updateSearchCount_def updateSearchCount_try_def updateSearchCount_catch_def
        listDocuments_def updateDocument_def l Let_def)
qed

text \<open>
  Claim C9. When the lookup finds a record, \<open>updateSearchCount\<close> writes the count only:
  the search terms, movie identifiers, poster URLs and document identifiers of the
  collection, read in order, are the same after the call as before, whatever becomes of
  the update request.
\<close>

theorem updateSearchCount_update_frame:
  "listFault env = Delivered \<Longrightarrow> records_of t (store w) \<noteq> [] \<Longrightarrow>
   map searchTerm (store (snd (updateSearchCount env t m w))) = map searchTerm (store w)
   \<and> map movie_id (store (snd (updateSearchCount env t m w))) = map movie_id (store w)
   \<and> map poster_url (store (snd (updateSearchCount env t m w))) = map poster_url (store w)
   \<and> map doc_id (store (snd (updateSearchCount env t m w))) = map doc_id (store w)"
  using found_store_cases [of env t w m]
  by (auto simp: patch_by_id_fields)

text \<open>
  The theorem at the example data: after the update of the record for \<open>dune\<close> its other
  fields are those of \<open>dune_doc\<close>.
\<close>

theorem updateSearchCount_update_frame_witness:
  "listFault quiet_env = Delivered \<and> records_of (js ''dune'') (store dune_world) \<noteq> []
   \<and> map searchTerm (store (snd (updateSearchCount quiet_env (js ''dune'') dune_movie dune_world)))
       = [searchTerm dune_doc]
   \<and> map movie_id (store (snd (updateSearchCount quiet_env (js ''dune'') dune_movie dune_world)))
       = [movie_id dune_doc]
   \<and> map poster_url (store (snd (updateSearchCount quiet_env (js ''dune'') dune_movie dune_world)))
       = [poster_url dune_doc]
   \<and> map doc_id (store (snd (updateSearchCount quiet_env (js ''dune'') dune_movie dune_world)))
       = [doc_id dune_doc]"
proof -
  have h1: "listFault quiet_env = Delivered"
    by (simp add: quiet_env_def)
  have h2: "records_of (js ''dune'') (store dune_world) \<noteq> []"
    by (simp add: records_of_def dune_world_def dune_doc_def)
  have s: "store dune_world = [dune_doc]"
    by (simp add: dune_world_def)
  from updateSearchCount_update_frame [OF h1 h2, of dune_movie] h1 h2 show ?thesis
    by (simp add: s)
qed

lemma lookup_failed_store:
  "listFault env \<noteq> Delivered \<Longrightarrow> store (snd (updateSearchCount env t m w)) = store w"
  by (cases "listFault env")
    (simp_all add: updateSearchCount_def updateSearchCount_try_def updateSearchCount_catch_def
      listDocuments_def)

lemma not_found_store_cases:
  assumes l: "listFault env = Delivered" and rec: "records_of t (store w) = []"
  shows "store (snd (updateSearchCount env t m w)) = store w
     \<or> (\<exists>d. searchTerm d = t \<and> store (snd (updateSearchCount env t m w)) = store w @ [d])"
proof -
  have sel: "select_docs [Query_equal_searchTerm t] (store w) = []"
    using rec by (simp add: select_equal_empty)
  show ?thesis
    by (cases "createFault env")
      (auto simp: updateSearchCount_def updateSearchCount_try_def updateSearchCount_catch_def
        listDocuments_def createDocument_def insert_doc_def l sel)
qed

lemma unique_terms_step:
  assumes inv: "unique_terms (store w)"
  shows "unique_terms (store (snd (updateSearchCount env t m w)))"
proof (cases "listFault env = Delivered")
  case False
  then show ?thesis using inv by (simp add: lookup_failed_store)
next
  case True
  show ?thesis
  proof (cases "records_of t (store w) = []")
    case False
    from found_store_cases [OF True False, of m] inv show ?thesis
      by (auto simp: unique_terms_def patch_by_id_fields)
  next
    case rec: True
    then have "t \<notin> set (map searchTerm (store w))"
      by (auto simp: records_of_def filter_empty_conv)
    with not_found_store_cases [OF True rec, of m] inv show ?thesis
      by (auto simp: unique_terms_def)
  qed
qed

text \<open>
  Claim C2. Calls of \<open>updateSearchCount\<close> made one after the other, with any terms, movies
  and failures of the store, keep the invariant that no two records of the collection
  hold the same search term.
\<close>

theorem run_searches_unique_terms:
  "unique_terms (store w) \<Longrightarrow> unique_terms (store (run_searches calls w))"
proof (induction calls arbitrary: w)
  case Nil
  then show ?case by simp
next
  case (Cons c calls)
  obtain env t m where c: "c = (env, t, m)" by (cases c)
  from Cons.prems have "unique_terms (store (snd (updateSearchCount env t m w)))"
    by (rule unique_terms_step)
  then show ?case unfolding c by (simp add: Cons.IH)
qed

lemma run_searches_example:
  "map (\<lambda>d. (searchTerm d, count d, doc_id d)) (store (run_searches
        [(quiet_env, js ''dune'', dune_movie), (arrival_env, js ''arrival'', dune_movie),
         (quiet_env, js ''arrival'', dune_movie)] dune_world))
   = [(js ''dune'', 4, js ''a1''), (js ''arrival'', 2, js ''c3'')]"
  by (simp add: updateSearchCount_def updateSearchCount_try_def updateSearchCount_catch_def
      listDocuments_def updateDocument_def createDocument_def insert_doc_def select_docs_def
      order_docs_def quiet_env_def arrival_env_def dune_world_def dune_doc_def dune_movie_def
      apply_patch_def empty_patch_def poster_url_of_def template_string_def js_def Let_def
      number_add_exact)

text \<open>
  The theorem at three calls on the example collection, one of them with a create request
  whose reply is lost; the collection ends with one record for each of the two terms.
\<close>

theorem run_searches_unique_terms_witness:
  "unique_terms (store dune_world)
   \<and> unique_terms (store (run_searches
        [(quiet_env, js ''dune'', dune_movie), (arrival_env, js ''arrival'', dune_movie),
         (quiet_env, js ''arrival'', dune_movie)] dune_world))
   \<and> map (\<lambda>d. (searchTerm d, count d, doc_id d)) (store (run_searches
        [(quiet_env, js ''dune'', dune_movie), (arrival_env, js ''arrival'', dune_movie),
         (quiet_env, js ''arrival'', dune_movie)] dune_world))
       = [(js ''dune'', 4, js ''a1''), (js ''arrival'', 2, js ''c3'')]"
proof -
  have h: "unique_terms (store dune_world)"
    by (simp add: unique_terms_def dune_world_def)
  from run_searches_unique_terms [OF h] h run_searches_example show ?thesis
    by (intro conjI)
qed

subsection \<open>Failures of the store are logged and swallowed\<close>

text \<open>
  Claim C4. \<open>updateSearchCount\<close> always resolves: whatever the store does, its promise is
  fulfilled. An error that leaves the \<open>try\<close> block is written to the console and nothing
  else is done with it. A failure of the lookup leaves the world as it was but for that
  console entry; a failure of the update or of the create writes the error to the console
  and nothing else outside the collection.
\<close>

theorem updateSearchCount_swallows:
  "fst (updateSearchCount env t m w) = Inr ()
   \<and> (fst (updateSearchCount_try env t m w) = Inl e \<longrightarrow>
        snd (updateSearchCount env t m w) = logged e (snd (updateSearchCount_try env t m w)))
   \<and> (listFault env = Dropped e \<or> listFault env = ReplyLost e \<longrightarrow>
        snd (updateSearchCount env t m w) = logged e w)
   \<and> (listFault env = Delivered \<longrightarrow> records_of t (store w) \<noteq> [] \<longrightarrow>
       updateFault env = Dropped e \<or> updateFault env = ReplyLost e \<longrightarrow>
        console (snd (updateSearchCount env t m w)) = console w @ [Console_log (Obj e)]
        \<and> requests (snd (updateSearchCount env t m w)) = requests w)
   \<and> (listFault env = Delivered \<longrightarrow> records_of t (store w) = [] \<longrightarrow>
       createFault env = Dropped e \<or> createFault env = ReplyLost e \<longrightarrow>
        console (snd (updateSearchCount env t m w)) = console w @ [Console_log (Obj e)]
        \<and> requests (snd (updateSearchCount env t m w)) = requests w)"
proof (intro conjI impI)
  show "fst (updateSearchCount env t m w) = Inr ()"
    by (rule updateSearchCount_resolves)
next
  assume "fst (updateSearchCount_try env t m w) = Inl e"
  then show "snd (updateSearchCount env t m w) = logged e (snd (updateSearchCount_try env t m w))"
    by (cases "updateSearchCount_try env t m w")
      (simp add: updateSearchCount_def updateSearchCount_catch_def logged_def)
next
  assume "listFault env = Dropped e \<or> listFault env = ReplyLost e"
  then show "snd (updateSearchCount env t m w) = logged e w"
    by (auto simp: updateSearchCount_def updateSearchCount_try_def updateSearchCount_catch_def
        listDocuments_def logged_def)
next
  assume l: "listFault env = Delivered" and rec: "records_of t (store w) \<noteq> []"
    and f: "updateFault env = Dropped e \<or> updateFault env = ReplyLost e"
  have sel: "select_docs [Query_equal_searchTerm t] (store w) \<noteq> []"
    using rec by (simp add: select_equal_empty)
  from f sel show "console (snd (updateSearchCount env t m w)) = console w @ [Console_log (Obj e)]"
    by (auto simp: updateSearchCount_def updateSearchCount_try_def updateSearchCount_catch_def
        listDocuments_def updateDocument_def l Let_def)
  from f sel show "requests (snd (updateSearchCount env t m w)) = requests w"
    by (auto simp: updateSearchCount_def updateSearchCount_try_def updateSearchCount_catch_def
        listDocuments_def updateDocument_def l Let_def)
next
  assume l: "listFault env = Delivered" and rec: "records_of t (store w) = []"
    and f: "createFault env = Dropped e \<or> createFault env = ReplyLost e"
  have sel: "select_docs [Query_equal_searchTerm t] (store w) = []"
    using rec by (simp add: select_equal_empty)
  from f show "console (snd (updateSearchCount env t m w)) = console w @ [Console_log (Obj e)]"
    by (auto simp: updateSearchCount_def updateSearchCount_try_def updateSearchCount_catch_def
        listDocuments_def createDocument_def l sel)
  from f show "requests (snd (updateSearchCount env t m w)) = requests w"
    by (auto simp: updateSearchCount_def updateSearchCount_try_def updateSearchCount_catch_def
        listDocuments_def createDocument_def l sel)
qed

text \<open>
  The theorem at a dropped lookup, an update whose reply is lost, and a dropped create.
\<close>

theorem updateSearchCount_swallows_witness:
  "updateSearchCount (failing_env (Dropped outage) Delivered Delivered) (js ''dune'') dune_movie dune_world
     = (Inr (), logged outage dune_world)
   \<and> fst (updateSearchCount (failing_env Delivered (ReplyLost outage) Delivered) (js ''dune'') dune_movie dune_world)
     = Inr ()
   \<and> console (snd (updateSearchCount (failing_env Delivered (ReplyLost outage) Delivered) (js ''dune'') dune_movie dune_world))
     = [Console_log (Obj outage)]
   \<and> fst (updateSearchCount (failing_env Delivered Delivered (Dropped outage)) (js ''dune'') dune_movie empty_world)
     = Inr ()
   \<and> console (snd (updateSearchCount (failing_env Delivered Delivered (Dropped outage)) (js ''dune'') dune_movie empty_world))
     = [Console_log (Obj outage)]"
proof -
  have h1: "listFault (failing_env (Dropped outage) Delivered Delivered) = Dropped outage"
    by (simp add: failing_env_def)
  have h2: "listFault (failing_env Delivered (ReplyLost outage) Delivered) = Delivered"
    "updateFault (failing_env Delivered (ReplyLost outage) Delivered) = ReplyLost outage"
    "records_of (js ''dune'') (store dune_world) \<noteq> []"
    by (simp_all add: failing_env_def records_of_def dune_world_def dune_doc_def)
  have h3: "listFault (failing_env Delivered Delivered (Dropped outage)) = Delivered"
    "createFault (failing_env Delivered Delivered (Dropped outage)) = Dropped outage"
    "records_of (js ''dune'') (store empty_world) = []"
    by (simp_all add: failing_env_def records_of_def empty_world_def)
  have c: "console dune_world = []" "console empty_world = []"
    by (simp_all add: dune_world_def empty_world_def)
  note a = updateSearchCount_swallows [of "failing_env (Dropped outage) Delivered Delivered"
      "js ''dune''" dune_movie dune_world outage]
  note b = updateSearchCount_swallows [of "failing_env Delivered (ReplyLost outage) Delivered"
      "js ''dune''" dune_movie dune_world outage]
  note d = updateSearchCount_swallows [of "failing_env Delivered Delivered (Dropped outage)"
      "js ''dune''" dune_movie empty_world outage]
  from a h1 have 1: "updateSearchCount (failing_env (Dropped outage) Delivered Delivered) (js ''dune'') dune_movie dune_world
     = (Inr (), logged outage dune_world)"
    by (metis prod.collapse)
  from b h2 have 2: "fst (updateSearchCount (failing_env Delivered (ReplyLost outage) Delivered) (js ''dune'') dune_movie dune_world)
     = Inr ()
   \<and> console (snd (updateSearchCount (failing_env Delivered (ReplyLost outage) Delivered) (js ''dune'') dune_movie dune_world))
     = console dune_world @ [Console_log (Obj outage)]"
    by blast
  from d h3 have 3: "fst (updateSearchCount (failing_env Delivered Delivered (Dropped outage)) (js ''dune'') dune_movie empty_world)
     = Inr ()
   \<and> console (snd (updateSearchCount (failing_env Delivered Delivered (Dropped outage)) (js ''dune'') dune_movie empty_world))
     = console empty_world @ [Console_log (Obj outage)]"
    by blast
  from 1 2 3 show ?thesis
    by (simp add: c)
qed

section \<open>Properties of getTrendingMovies\<close>

lemma map_insort_key:
  "map f (insort_key (\<lambda>x. k (f x)) a xs) = insort_key k (f a) (map f xs)"
  by (induction xs) simp_all

lemma map_sort_key: "map f (sort_key (\<lambda>x. k (f x)) xs) = sort_key k (map f xs)"
  by (induction xs) (simp_all add: map_insort_key)

lemma select_trending:
  "select_docs [Query_limit 5, Query_orderDesc_count] ds = take 5 (sort_key (\<lambda>d. - count d) ds)"
proof -
  have "matches [Query_limit 5, Query_orderDesc_count] = (\<lambda>d. True)"
    by (rule ext) simp
  then show ?thesis
    by (simp add: select_docs_def order_docs_def)
qed

lemma sorted_desc_sort_key:
  "sorted_wrt (\<lambda>a b. count b \<le> count a) (sort_key (\<lambda>d. - count d) ds)"
proof -
  have "sorted (map (\<lambda>d. - count d) (sort_key (\<lambda>d. - count d) ds))"
    by (rule sorted_sort_key)
  then show ?thesis
    by (simp add: sorted_map)
qed

lemma sorted_wrt_take_drop:
  "sorted_wrt P xs \<Longrightarrow> \<forall>a\<in>set (take n xs). \<forall>b\<in>set (drop n xs). P a b"
  by (metis append_take_drop_id sorted_wrt_append)

text \<open>
  Claim C3. When the store answers, \<open>getTrendingMovies\<close> returns at most five documents
  (five, or all when the collection holds fewer), in descending order of count, taken from
  the collection, and no document left out has a higher count than one returned. On a
  collection whose counts are 3, 1, 5, 2, 4, 0 it returns the documents with counts
  5, 4, 3, 2, 1 in that order.
\<close>

theorem getTrendingMovies_top5:
  "\<exists>ds. getTrendingMovies Delivered w = (Inr (Some ds), w)
     \<and> length ds \<le> 5
     \<and> length ds = min 5 (length (store w))
     \<and> sorted_wrt (\<lambda>a b. count b \<le> count a) ds
     \<and> mset ds \<subseteq># mset (store w)
     \<and> (\<forall>r\<in>set ds. \<forall>d\<in>#(mset (store w) - mset ds). count d \<le> count r)
     \<and> (map count (store w) = [3, 1, 5, 2, 4, 0] \<longrightarrow> map count ds = [5, 4, 3, 2, 1])"
proof (intro exI conjI impI)
  let ?s = "sort_key (\<lambda>d. - count d) (store w)"
  let ?ds = "take 5 ?s"
  show "getTrendingMovies Delivered w = (Inr (Some ?ds), w)"
    by (simp add: getTrendingMovies_def getTrendingMovies_try_def listDocuments_def select_trending)
  show "length ?ds \<le> 5" by simp
  show "length ?ds = min 5 (length (store w))" by (simp add: min.commute)
  have srt: "sorted_wrt (\<lambda>a b. count b \<le> count a) ?s"
    by (rule sorted_desc_sort_key)
  then show "sorted_wrt (\<lambda>a b. count b \<le> count a) ?ds"
    by (metis append_take_drop_id sorted_wrt_append)
  have split: "mset (store w) = mset ?ds + mset (drop 5 ?s)"
    by (metis append_take_drop_id mset_append mset_sort)
  then show "mset ?ds \<subseteq># mset (store w)" by simp
  from split have "mset (store w) - mset ?ds = mset (drop 5 ?s)" by simp
  with sorted_wrt_take_drop [OF srt, of 5]
  show "\<forall>r\<in>set ?ds. \<forall>d\<in>#(mset (store w) - mset ?ds). count d \<le> count r"
    by simp
  assume c: "map count (store w) = [3, 1, 5, 2, 4, 0]"
  have "map count ?s = sort_key uminus (map count (store w))"
    by (rule map_sort_key [of count uminus])
  also have "\<dots> = [5, 4, 3, 2, 1, 0]"
    unfolding c by simp
  finally have "map count ?s = [5, 4, 3, 2, 1, 0]" .
  then show "map count ?ds = [5, 4, 3, 2, 1]"
    by (simp add: take_map [symmetric])
qed

text \<open>
  The theorem at a collection of six records with the counts 3, 1, 5, 2, 4, 0.
\<close>

theorem getTrendingMovies_top5_witness:
  "map count (store six_world) = [3, 1, 5, 2, 4, 0]
   \<and> (\<exists>ds. getTrendingMovies Delivered six_world = (Inr (Some ds), six_world)
         \<and> length ds = 5 \<and> map count ds = [5, 4, 3, 2, 1])"
proof -
  have h: "map count (store six_world) = [3, 1, 5, 2, 4, 0]"
    by (simp add: six_world_def term_doc_def)
  have l: "length (store six_world) = 6"
    by (simp add: six_world_def)
  from getTrendingMovies_top5 [of six_world] obtain ds where
    ds: "getTrendingMovies Delivered six_world = (Inr (Some ds), six_world)"
      "length ds = min 5 (length (store six_world))"
      "map count (store six_world) = [3, 1, 5, 2, 4, 0] \<longrightarrow> map count ds = [5, 4, 3, 2, 1]"
    by (elim exE conjE)
  from ds(2) l have "length ds = 5" by simp
  moreover from ds(3) h have "map count ds = [5, 4, 3, 2, 1]" by (rule mp)
  ultimately show ?thesis using ds(1) h by (intro conjI exI [of _ ds])
qed

text \<open>
  Claim C5. When the store access fails, \<open>getTrendingMovies\<close> writes the error with
  \<open>console.error\<close> and resolves with \<open>undefined\<close>; on an empty collection it resolves with
  the empty list, and \<open>undefined\<close> differs from every list a successful call returns.
\<close>

theorem getTrendingMovies_failure_undefined:
  "getTrendingMovies (Dropped e) w = (Inr None, w\<lparr>console := console w @ [Console_error (Obj e)]\<rparr>)
   \<and> getTrendingMovies (ReplyLost e) w
       = (Inr None, w\<lparr>console := console w @ [Console_error (Obj e)]\<rparr>)
   \<and> getTrendingMovies Delivered (w\<lparr>store := []\<rparr>) = (Inr (Some []), w\<lparr>store := []\<rparr>)
   \<and> (\<exists>ds. fst (getTrendingMovies Delivered v) = Inr (Some ds))
   \<and> fst (getTrendingMovies (Dropped e) w) \<noteq> fst (getTrendingMovies Delivered v)
   \<and> fst (getTrendingMovies (ReplyLost e) w) \<noteq> fst (getTrendingMovies Delivered v)"
  by (simp add: getTrendingMovies_def getTrendingMovies_try_def getTrendingMovies_catch_def
      listDocuments_def select_trending)

text \<open>
  The theorem at a dropped request on the collection of six records, and at the empty
  collection.
\<close>

theorem getTrendingMovies_failure_undefined_witness:
  "getTrendingMovies (Dropped outage) six_world
     = (Inr None, six_world\<lparr>console := [Console_error (Obj outage)]\<rparr>)
   \<and> getTrendingMovies Delivered empty_world = (Inr (Some []), empty_world)
   \<and> fst (getTrendingMovies (Dropped outage) six_world) \<noteq> fst (getTrendingMovies Delivered empty_world)"
proof -
  have c: "console six_world = []" by (simp add: six_world_def)
  have e: "empty_world\<lparr>store := []\<rparr> = empty_world" by (simp add: empty_world_def)
  from getTrendingMovies_failure_undefined [of outage six_world empty_world]
    getTrendingMovies_failure_undefined [of outage empty_world empty_world]
  show ?thesis
    unfolding c e by (elim conjE) (intro conjI; simp)
qed

section \<open>Properties of encodeURI\<close>

lemma unescaped_ascii: "unescaped c \<Longrightarrow> unat c < 0x80"
  by (auto simp: unescaped_def uriUnescaped_def reserved_def in_range_def uriMark_def
      uriReserved_def js_def)

lemma unescaped_not_surrogate: "unescaped c \<Longrightarrow> \<not> is_lead c \<and> \<not> is_trail c"
  using unescaped_ascii [of c] by (auto simp: is_lead_def is_trail_def in_range_def)

lemma lead_not_trail: "is_lead c \<Longrightarrow> \<not> is_trail c"
  by (auto simp: is_lead_def is_trail_def in_range_def)

lemma hex_digit_unescaped: "n < 16 \<Longrightarrow> uriUnescaped (hex_digit n)"
proof -
  assume n: "n < 16"
  have "unat (of_nat (0x30 + n) :: code_unit) = 0x30 + n"
    using n by (simp add: unat_of_nat del: of_nat_add)
  moreover have "unat (of_nat (0x37 + n) :: code_unit) = 0x37 + n"
    using n by (simp add: unat_of_nat del: of_nat_add)
  ultimately show ?thesis
    using n by (auto simp: hex_digit_def uriUnescaped_def in_range_def simp del: of_nat_add)
qed

lemma percent_component_chars: "octet < 256 \<Longrightarrow> list_all component_char (percent octet)"
proof -
  assume "octet < 256"
  then have "octet div 16 < 16" "octet mod 16 < 16" by simp_all
  then show ?thesis
    by (simp add: percent_def component_char_def hex_digit_unescaped)
qed

lemma utf8_octets: "cp < 0x110000 \<Longrightarrow> \<forall>b\<in>set (utf8 cp). b < 256"
  by (auto simp: utf8_def)

lemma escape_component_chars: "cp < 0x110000 \<Longrightarrow> list_all component_char (escape cp)"
  using utf8_octets [of cp] percent_component_chars
  by (auto simp: escape_def list_all_iff)

lemma component_char_uri_char: "component_char c \<Longrightarrow> uri_char c"
  by (auto simp: component_char_def uri_char_def unescaped_def)

lemma escape_uri_chars: "cp < 0x110000 \<Longrightarrow> list_all uri_char (escape cp)"
  using escape_component_chars [of cp] component_char_uri_char
  by (auto simp: list_all_iff)

lemma pair_code_point_bound: "is_lead c \<Longrightarrow> is_trail d \<Longrightarrow> pair_code_point c d < 0x110000"
  by (auto simp: is_lead_def is_trail_def in_range_def pair_code_point_def)

lemma unit_bound: "unat (c :: code_unit) < 0x110000"
  using unsigned_less [of c, where ?'a = nat] by simp

lemma encodeURI_Nil: "encodeURI [] = Inr []"
  by (simp add: encodeURI_def)

lemma encodeURI_unescaped:
  "unescaped c \<Longrightarrow>
   encodeURI (c # cs) = (case encodeURI cs of Inl e \<Rightarrow> Inl e | Inr r \<Rightarrow> Inr (c # r))"
  by (simp add: encodeURI_def)

lemma encodeURI_trail: "\<not> unescaped c \<Longrightarrow> is_trail c \<Longrightarrow> encodeURI (c # cs) = Inl URIError"
  by (simp add: encodeURI_def)

lemma encodeURI_lead_last: "is_lead c \<Longrightarrow> encodeURI [c] = Inl URIError"
  using unescaped_not_surrogate [of c] by (auto simp: encodeURI_def)

lemma encodeURI_lead_alone:
  "is_lead c \<Longrightarrow> \<not> is_trail d \<Longrightarrow> encodeURI (c # d # ds) = Inl URIError"
  using unescaped_not_surrogate [of c] by (auto simp: encodeURI_def)

lemma encodeURI_pair:
  "is_lead c \<Longrightarrow> is_trail d \<Longrightarrow>
   encodeURI (c # d # ds) =
     (case encodeURI ds of Inl e \<Rightarrow> Inl e | Inr r \<Rightarrow> Inr (escape (pair_code_point c d) @ r))"
  using unescaped_not_surrogate [of c] lead_not_trail [of c] by (auto simp: encodeURI_def)

lemma encodeURI_plain:
  "\<not> unescaped c \<Longrightarrow> \<not> is_lead c \<Longrightarrow> \<not> is_trail c \<Longrightarrow>
   encodeURI (c # cs) =
     (case encodeURI cs of Inl e \<Rightarrow> Inl e | Inr r \<Rightarrow> Inr (escape (unat c) @ r))"
  by (simp add: encodeURI_def)

text \<open>
  Two sets of unescaped code units that agree on the code units of a text give the same
  encoding of it.
\<close>

lemma Encode_cong: "\<forall>c\<in>set s. keep c = keep' c \<Longrightarrow> Encode keep s = Encode keep' s"
proof (induction s rule: length_induct)
  case (1 s)
  show ?case
  proof (cases s)
    case Nil
    then show ?thesis by simp
  next
    case (Cons c cs)
    from 1 Cons have c: "keep c = keep' c" by simp
    from 1 Cons have cs: "Encode keep cs = Encode keep' cs" by simp
    show ?thesis
    proof (cases cs)
      case Nil
      with Cons c show ?thesis by simp
    next
      case tail: (Cons d ds)
      from 1 Cons tail have "Encode keep ds = Encode keep' ds" by simp
      with Cons tail c cs show ?thesis by simp
    qed
  qed
qed

declare Encode.simps(2) [simp del]

lemma encodeURI_total:
  "(isWellFormed q \<longrightarrow> (\<exists>r. encodeURI q = Inr r)) \<and> (\<not> isWellFormed q \<longrightarrow> encodeURI q = Inl URIError)"
proof (induction q rule: isWellFormed.induct)
  case 1
  show ?case by (simp add: encodeURI_Nil)
next
  case (2 c)
  consider "unescaped c" | "\<not> unescaped c" "is_trail c" | "is_lead c"
    | "\<not> unescaped c" "\<not> is_lead c" "\<not> is_trail c"
    by blast
  then show ?case
  proof cases
    case 1
    with unescaped_not_surrogate [of c] show ?thesis
      by (simp add: encodeURI_unescaped encodeURI_Nil)
  next
    case 2
    then show ?thesis by (simp add: encodeURI_trail)
  next
    case 3
    then show ?thesis by (simp add: encodeURI_lead_last)
  next
    case 4
    then show ?thesis by (simp add: encodeURI_plain encodeURI_Nil)
  qed
next
  case (3 c d ds)
  consider "is_lead c" "is_trail d" | "is_lead c" "\<not> is_trail d"
    | "\<not> is_lead c" "unescaped c" | "\<not> is_lead c" "\<not> unescaped c" "is_trail c"
    | "\<not> unescaped c" "\<not> is_lead c" "\<not> is_trail c"
    by blast
  then show ?case
  proof cases
    case 1
    with 3(1) show ?thesis by (auto simp: encodeURI_pair)
  next
    case 2
    then show ?thesis by (simp add: encodeURI_lead_alone)
  next
    case 3
    with "3.IH"(2) unescaped_not_surrogate [of c] show ?thesis
      by (auto simp: encodeURI_unescaped)
  next
    case 4
    then show ?thesis by (simp add: encodeURI_trail)
  next
    case 5
    with "3.IH"(2) show ?thesis by (auto simp: encodeURI_plain)
  qed
qed

lemma encodeURI_uri_chars: "encodeURI q = Inr r \<Longrightarrow> list_all uri_char r"
proof (induction q arbitrary: r rule: isWellFormed.induct)
  case 1
  then show ?case by (simp add: encodeURI_Nil)
next
  case (2 c)
  consider "unescaped c" | "\<not> unescaped c" "is_trail c" | "is_lead c"
    | "\<not> unescaped c" "\<not> is_lead c" "\<not> is_trail c"
    by blast
  then show ?case
  proof cases
    case 1
    with 2 show ?thesis by (auto simp: encodeURI_unescaped encodeURI_Nil uri_char_def)
  next
    case 2
    with "2.prems" show ?thesis by (simp add: encodeURI_trail)
  next
    case 3
    with "2.prems" show ?thesis by (simp add: encodeURI_lead_last)
  next
    case 4
    with "2.prems" show ?thesis
      by (auto simp: encodeURI_plain encodeURI_Nil escape_uri_chars unit_bound)
  qed
next
  case (3 c d ds)
  consider "is_lead c" "is_trail d" | "is_lead c" "\<not> is_trail d"
    | "\<not> is_lead c" "unescaped c" | "\<not> is_lead c" "\<not> unescaped c" "is_trail c"
    | "\<not> unescaped c" "\<not> is_lead c" "\<not> is_trail c"
    by blast
  then show ?case
  proof cases
    case 1
    with "3.prems" "3.IH"(1) show ?thesis
      by (auto simp: encodeURI_pair escape_uri_chars pair_code_point_bound split: sum.splits)
  next
    case 2
    with "3.prems" show ?thesis by (simp add: encodeURI_lead_alone)
  next
    case 3
    with "3.prems" "3.IH"(2) show ?thesis
      by (auto simp: encodeURI_unescaped uri_char_def split: sum.splits)
  next
    case 4
    with "3.prems" show ?thesis by (simp add: encodeURI_trail)
  next
    case 5
    with "3.prems" "3.IH"(2) show ?thesis
      by (auto simp: encodeURI_plain escape_uri_chars unit_bound split: sum.splits)
  qed
qed

lemma Encode_chars:
  assumes esc: "\<And>cp. cp < 0x110000 \<Longrightarrow> list_all P (escape cp)"
  shows "Encode keep q = Inr r \<Longrightarrow> \<forall>c\<in>set q. keep c \<longrightarrow> P c \<Longrightarrow> list_all P r"
proof (induction q arbitrary: r rule: length_induct)
  case (1 q)
  show ?case
  proof (cases q)
    case Nil
    with "1.prems" show ?thesis by simp
  next
    case (Cons c cs)
    have tail: "list_all P r'" if "Encode keep cs = Inr r'" for r'
    proof -
      have "length cs < length q" using Cons by simp
      moreover have "\<forall>c\<in>set cs. keep c \<longrightarrow> P c" using "1.prems"(2) Cons by simp
      ultimately show ?thesis using "1.IH" that by blast
    qed
    consider "keep c" | "\<not> keep c" "is_trail c" | "\<not> keep c" "\<not> is_trail c" "is_lead c"
      | "\<not> keep c" "\<not> is_lead c" "\<not> is_trail c"
      by blast
    then show ?thesis
    proof cases
      case 1
      with "1.prems" Cons tail show ?thesis
        by (auto simp: Encode.simps(2) split: sum.splits)
    next
      case 2
      with "1.prems" Cons show ?thesis by (simp add: Encode.simps(2))
    next
      case 3
      show ?thesis
      proof (cases cs)
        case Nil
        with 3 "1.prems" Cons show ?thesis by (simp add: Encode.simps(2))
      next
        case inner: (Cons d ds)
        have rest: "list_all P r'" if "Encode keep ds = Inr r'" for r'
        proof -
          have "length ds < length q" using Cons inner by simp
          moreover have "\<forall>c\<in>set ds. keep c \<longrightarrow> P c" using "1.prems"(2) Cons inner by simp
          ultimately show ?thesis using "1.IH" that by blast
        qed
        from 3 "1.prems"(1) Cons inner rest show ?thesis
          by (auto simp: Encode.simps(2) esc pair_code_point_bound split: sum.splits if_splits)
      qed
    next
      case 4
      with "1.prems" Cons tail show ?thesis
        by (auto simp: Encode.simps(2) esc unit_bound split: sum.splits)
    qed
  qed
qed

lemma encodeURIComponent_chars: "encodeURIComponent q = Inr r \<Longrightarrow> list_all component_char r"
  unfolding encodeURIComponent_def
  by (rule Encode_chars [where P = component_char and keep = uriUnescaped])
    (simp_all add: escape_component_chars component_char_def)

text \<open>
  On a text that holds no reserved character, \<open>encodeURI\<close> writes the percent-encoding of
  the text as a component.
\<close>

lemma encodeURI_component:
  "\<forall>c\<in>set q. \<not> reserved c \<Longrightarrow> encodeURI q = encodeURIComponent q"
  unfolding encodeURI_def encodeURIComponent_def
  by (rule Encode_cong) (simp add: unescaped_def)

text \<open>
  The reserved characters are left as they are: \<open>encodeURI\<close> is not
  \<open>encodeURIComponent\<close>, and a query that holds \<open>&\<close>, \<open>=\<close>, \<open>#\<close>, \<open>+\<close> or \<open>?\<close> is not
  percent-encoded into the URL.
\<close>

lemma encodeURI_reserved_example:
  "encodeURI (js ''Fast & Furious'') = Inr (js ''Fast%20&%20Furious'')
   \<and> encodeURIComponent (js ''Fast & Furious'') = Inr (js ''Fast%20%26%20Furious'')"
  by (simp add: encodeURI_def encodeURIComponent_def Encode.simps js_def unescaped_def
      uriUnescaped_def reserved_def is_lead_def is_trail_def in_range_def uriMark_def
      uriReserved_def escape_def utf8_def percent_def hex_digit_def)

section \<open>Properties of fetchMovies\<close>

subsection \<open>The try block, its handler and its finaliser\<close>

lemma fetchMovies_resolves: "fst (fetchMovies ev arg (a, w)) = Inr ()"
  by (simp add: fetchMovies_def try_finally_def try_catch_def fetchMovies_catch_def
      fetchMovies_finally_def Let_def split: prod.splits sum.splits)

lemma fetchMovies_thrown:
  assumes "fetchMovies_try ev (query_or_default arg) (a\<lparr>isLoading := True, errorMessage := []\<rparr>, w)
     = (Inl e, a', w')"
  shows "fetchMovies ev arg (a, w) =
     (Inr (), a'\<lparr>errorMessage := js ''Error fetching movies. Please try again later.'',
                isLoading := False\<rparr>,
      w'\<lparr>console := console w' @ [Console_log (Str (js ''Error fetching movies: '' @ toString_error e))]\<rparr>)"
  using assms
  by (simp add: fetchMovies_def try_finally_def try_catch_def fetchMovies_catch_def
      fetchMovies_finally_def Let_def)

lemma fetchMovies_normal:
  assumes "fetchMovies_try ev (query_or_default arg) (a\<lparr>isLoading := True, errorMessage := []\<rparr>, w)
     = (Inr (), a', w')"
  shows "fetchMovies ev arg (a, w) = (Inr (), a'\<lparr>isLoading := False\<rparr>, w')"
  using assms
  by (simp add: fetchMovies_def try_finally_def try_catch_def fetchMovies_catch_def
      fetchMovies_finally_def Let_def)

lemma try_not_ok:
  "endpoint_of q = Inr u \<Longrightarrow> fetch ev u = Inr resp \<Longrightarrow> \<not> ok resp \<Longrightarrow>
   fetchMovies_try ev q (a, w) =
     (Inl (Error_of (js ''Failed to fetch movies'')), a, w\<lparr>requests := requests w @ [u]\<rparr>)"
  by (simp add: fetchMovies_try_def)

lemma try_rejected:
  "endpoint_of q = Inr u \<Longrightarrow> fetch ev u = Inl e \<Longrightarrow>
   fetchMovies_try ev q (a, w) = (Inl e, a, w\<lparr>requests := requests w @ [u]\<rparr>)"
  by (simp add: fetchMovies_try_def)

lemma try_not_json:
  "endpoint_of q = Inr u \<Longrightarrow> fetch ev u = Inr resp \<Longrightarrow> ok resp \<Longrightarrow> json resp = Inl e \<Longrightarrow>
   fetchMovies_try ev q (a, w) = (Inl e, a, w\<lparr>requests := requests w @ [u]\<rparr>)"
  by (simp add: fetchMovies_try_def)

lemma try_malformed:
  "endpoint_of q = Inl e \<Longrightarrow>
   fetchMovies_try ev q (a, w) = (Inl (URIError_of (uri_malformed (engine ev))), a, w)"
  by (cases e) (simp add: fetchMovies_try_def)

lemma toString_failed:
  "toString_error (Error_of (js ''Failed to fetch movies'')) = js ''Error: Failed to fetch movies''"
  by (simp add: toString_error_def Error_of_def js_def)

subsection \<open>The endpoint requested\<close>

lemma updateSearchCount_requests: "requests (snd (updateSearchCount env t m w)) = requests w"
  by (auto simp: updateSearchCount_def updateSearchCount_try_def updateSearchCount_catch_def
      listDocuments_def updateDocument_def createDocument_def Let_def
      split: sum.splits fault.splits prod.splits if_splits)

lemma updateSearchCount_requests_eq:
  "updateSearchCount env t m w = (r, w') \<Longrightarrow> requests w' = requests w"
  using updateSearchCount_requests [of env t m w] by simp

lemma try_requests:
  "endpoint_of q = Inr u \<Longrightarrow>
   requests (snd (snd (fetchMovies_try ev q (a, w)))) = requests w @ [u]"
  by (auto simp: fetchMovies_try_def Let_def dest: updateSearchCount_requests_eq
      split: sum.splits json_value.splits option.splits prod.splits)

lemma fetchMovies_requests:
  "requests (snd (snd (fetchMovies ev arg (a, w)))) =
   requests (snd (snd (fetchMovies_try ev (query_or_default arg)
      (a\<lparr>isLoading := True, errorMessage := []\<rparr>, w))))"
  by (simp add: fetchMovies_def try_finally_def try_catch_def fetchMovies_catch_def
      fetchMovies_finally_def Let_def split: prod.splits sum.splits)

lemma encodeURI_example: "encodeURI (js ''the matrix'') = Inr (js ''the%20matrix'')"
  by (simp add: encodeURI_def Encode.simps js_def unescaped_def uriUnescaped_def reserved_def is_lead_def is_trail_def in_range_def
      uriMark_def uriReserved_def escape_def utf8_def percent_def hex_digit_def)

lemma wellformed_example: "isWellFormed (js ''the matrix'')"
  by (simp add: js_def is_lead_def is_trail_def in_range_def)

lemma malformed_example: "\<not> isWellFormed [0xD800]"
  by (simp add: is_lead_def is_trail_def in_range_def)

text \<open>
  Claim C6, as the code has it by design. When the query is absent or empty,
  \<open>fetchMovies\<close> requests the URL of the popular movies,
  \<open>{base}/discover/movie?sort_by=popularity.desc\<close>. When the query is not empty and is
  well-formed UTF-16, it requests a URL of the search endpoint,
  \<open>{base}/search/movie?query=\<close> followed by a text; when the query holds no reserved
  character, that text is the query percent-encoded, and holds letters, digits, marks and
  percent escapes only. When the query holds a surrogate code unit outside a pair,
  \<open>encodeURI\<close> throws \<open>URIError\<close> inside the \<open>try\<close> block: no request is made, and the
  \<open>catch\<close> block sets the error message.
\<close>

theorem fetchMovies_endpoint:
  "(arg = None \<or> arg = Some [] \<longrightarrow>
      requests (snd (snd (fetchMovies ev arg (a, w)))) =
        requests w @ [API_BASE_URL @ js ''/discover/movie?sort_by=popularity.desc''])
   \<and> (arg = Some q \<longrightarrow> q \<noteq> [] \<longrightarrow> isWellFormed q \<longrightarrow>
        (\<exists>enc. requests (snd (snd (fetchMovies ev arg (a, w)))) =
               requests w @ [API_BASE_URL @ js ''/search/movie?query='' @ enc]
           \<and> ((\<forall>c\<in>set q. \<not> reserved c) \<longrightarrow>
                encodeURIComponent q = Inr enc \<and> list_all component_char enc)))
   \<and> (arg = Some q \<longrightarrow> \<not> isWellFormed q \<longrightarrow>
        q \<noteq> []
        \<and> encodeURI q = Inl URIError
        \<and> fst (fetchMovies ev arg (a, w)) = Inr ()
        \<and> requests (snd (snd (fetchMovies ev arg (a, w)))) = requests w
        \<and> errorMessage (fst (snd (fetchMovies ev arg (a, w)))) =
            js ''Error fetching movies. Please try again later.'')"
proof (intro conjI impI)
  assume "arg = None \<or> arg = Some []"
  then have "endpoint_of (query_or_default arg) =
      Inr (API_BASE_URL @ js ''/discover/movie?sort_by=popularity.desc'')"
    by (auto simp: query_or_default_def endpoint_of_def)
  then show "requests (snd (snd (fetchMovies ev arg (a, w)))) =
        requests w @ [API_BASE_URL @ js ''/discover/movie?sort_by=popularity.desc'']"
    by (simp add: fetchMovies_requests try_requests)
next
  assume arg: "arg = Some q" and q: "q \<noteq> []" and wf: "isWellFormed q"
  from wf encodeURI_total [of q] obtain enc where enc: "encodeURI q = Inr enc" by blast
  then have "endpoint_of (query_or_default arg) = Inr (API_BASE_URL @ js ''/search/movie?query='' @ enc)"
    using q by (simp add: arg query_or_default_def endpoint_of_def)
  then have r: "requests (snd (snd (fetchMovies ev arg (a, w)))) =
      requests w @ [API_BASE_URL @ js ''/search/movie?query='' @ enc]"
    by (simp add: fetchMovies_requests try_requests)
  have "encodeURIComponent q = Inr enc \<and> list_all component_char enc"
    if "\<forall>c\<in>set q. \<not> reserved c"
  proof -
    from that enc have "encodeURIComponent q = Inr enc"
      by (simp add: encodeURI_component)
    then show ?thesis by (simp add: encodeURIComponent_chars)
  qed
  with r
  show "\<exists>enc. requests (snd (snd (fetchMovies ev arg (a, w)))) =
               requests w @ [API_BASE_URL @ js ''/search/movie?query='' @ enc]
           \<and> ((\<forall>c\<in>set q. \<not> reserved c) \<longrightarrow>
                encodeURIComponent q = Inr enc \<and> list_all component_char enc)"
    by blast
next
  assume arg: "arg = Some q" and wf: "\<not> isWellFormed q"
  from wf encodeURI_total [of q] show enc: "encodeURI q = Inl URIError" by blast
  from wf show q: "q \<noteq> []" by auto
  from enc q have "endpoint_of (query_or_default arg) = Inl URIError"
    by (simp add: arg query_or_default_def endpoint_of_def)
  note t = fetchMovies_thrown [OF try_malformed [OF this]]
  show "fst (fetchMovies ev arg (a, w)) = Inr ()"
    by (rule fetchMovies_resolves)
  show "requests (snd (snd (fetchMovies ev arg (a, w)))) = requests w"
    by (simp add: t)
  show "errorMessage (fst (snd (fetchMovies ev arg (a, w)))) =
            js ''Error fetching movies. Please try again later.''"
    by (simp add: t)
qed

text \<open>
  The theorem at no query, at the query \<open>the matrix\<close> and at a query that is one lead
  surrogate.
\<close>

theorem fetchMovies_endpoint_witness:
  "requests (snd (snd (fetchMovies (service_env (Inr (ok_with empty_body))) None
       (initial_state, empty_world))))
     = [js ''https://api.themoviedb.org/3/discover/movie?sort_by=popularity.desc'']
   \<and> js ''the matrix'' \<noteq> [] \<and> isWellFormed (js ''the matrix'')
   \<and> \<not> list_ex reserved (js ''the matrix'')
   \<and> encodeURIComponent (js ''the matrix'') = Inr (js ''the%20matrix'')
   \<and> requests (snd (snd (fetchMovies (service_env (Inr (ok_with empty_body)))
       (Some (js ''the matrix'')) (initial_state, empty_world))))
     = [js ''https://api.themoviedb.org/3/search/movie?query=the%20matrix'']
   \<and> \<not> isWellFormed [0xD800]
   \<and> requests (snd (snd (fetchMovies (service_env (Inr (ok_with empty_body)))
       (Some [0xD800]) (initial_state, empty_world)))) = []"
proof -
  let ?ev = "service_env (Inr (ok_with empty_body))"
  have ne: "js ''the matrix'' \<noteq> []" by (simp add: js_def)
  have nr: "\<not> list_ex reserved (js ''the matrix'')"
    by (simp add: js_def reserved_def uriReserved_def)
  then have nr': "\<forall>c\<in>set (js ''the matrix''). \<not> reserved c"
    by (simp add: list_ex_iff)
  have r: "requests empty_world = []" by (simp add: empty_world_def)
  from fetchMovies_endpoint [of None ?ev initial_state empty_world]
  have 1: "requests (snd (snd (fetchMovies ?ev None (initial_state, empty_world)))) =
      requests empty_world @ [API_BASE_URL @ js ''/discover/movie?sort_by=popularity.desc'']"
    by simp
  note mid = fetchMovies_endpoint [of "Some (js ''the matrix'')" ?ev initial_state empty_world
      "js ''the matrix''", THEN conjunct2, THEN conjunct1, rule_format, OF refl ne wellformed_example]
  then obtain enc where enc:
    "requests (snd (snd (fetchMovies ?ev (Some (js ''the matrix'')) (initial_state, empty_world)))) =
      requests empty_world @ [API_BASE_URL @ js ''/search/movie?query='' @ enc]"
    "(\<forall>c\<in>set (js ''the matrix''). \<not> reserved c) \<longrightarrow>
       encodeURIComponent (js ''the matrix'') = Inr enc \<and> list_all component_char enc"
    by (elim exE conjE)
  from enc(2) nr' have c: "encodeURIComponent (js ''the matrix'') = Inr enc" by (elim impE conjE)
  have "encodeURIComponent (js ''the matrix'') = encodeURI (js ''the matrix'')"
    using nr' by (simp add: encodeURI_component)
  with c have "enc = js ''the%20matrix''" by (simp add: encodeURI_example)
  with enc(1) c
  have 2: "requests (snd (snd (fetchMovies ?ev (Some (js ''the matrix'')) (initial_state, empty_world)))) =
      requests empty_world @ [API_BASE_URL @ js ''/search/movie?query='' @ js ''the%20matrix'']"
    and c': "encodeURIComponent (js ''the matrix'') = Inr (js ''the%20matrix'')"
    by simp_all
  note th = fetchMovies_endpoint [of "Some [0xD800]" ?ev initial_state empty_world "[0xD800]",
      THEN conjunct2, THEN conjunct2, rule_format, OF refl malformed_example]
  from th
  have 3: "requests (snd (snd (fetchMovies ?ev (Some [0xD800]) (initial_state, empty_world)))) =
      requests empty_world"
    by (elim conjE)
  have u1: "API_BASE_URL @ js ''/discover/movie?sort_by=popularity.desc''
      = js ''https://api.themoviedb.org/3/discover/movie?sort_by=popularity.desc''"
    by (simp add: API_BASE_URL_def js_def)
  have u2: "API_BASE_URL @ js ''/search/movie?query='' @ js ''the%20matrix''
      = js ''https://api.themoviedb.org/3/search/movie?query=the%20matrix''"
    by (simp add: API_BASE_URL_def js_def)
  from 1 2 3 c' ne nr wellformed_example malformed_example show ?thesis
    unfolding u1 u2 r by simp
qed

text \<open>
  The reserved characters go into the URL as they are: for the query \<open>Fast & Furious\<close> the
  URL requested holds the \<open>&\<close> unescaped, so it is not the query text percent-encoded.
\<close>

lemma fetchMovies_reserved_example:
  "requests (snd (snd (fetchMovies (service_env (Inr (ok_with empty_body)))
       (Some (js ''Fast & Furious'')) (initial_state, empty_world))))
     = [js ''https://api.themoviedb.org/3/search/movie?query=Fast%20&%20Furious'']"
proof -
  have "endpoint_of (query_or_default (Some (js ''Fast & Furious''))) =
      Inr (js ''https://api.themoviedb.org/3/search/movie?query=Fast%20&%20Furious'')"
    using encodeURI_reserved_example
    by (simp add: query_or_default_def endpoint_of_def API_BASE_URL_def js_def)
  then show ?thesis
    by (simp add: fetchMovies_requests try_requests empty_world_def)
qed

text \<open>
  Claim C6 as stated fails: the query made of the single code unit \<open>0xD800\<close> is not empty,
  and \<open>fetchMovies\<close> requests no URL for it.
\<close>

theorem fetchMovies_lone_surrogate:
  "[0xD800] \<noteq> ([] :: jsstring)
   \<and> requests (snd (snd (fetchMovies (service_env (Inr (ok_with empty_body))) (Some [0xD800])
        (initial_state, empty_world)))) = []
   \<and> errorMessage (fst (snd (fetchMovies (service_env (Inr (ok_with empty_body))) (Some [0xD800])
        (initial_state, empty_world)))) = js ''Error fetching movies. Please try again later.''"
proof -
  have "unat (0xD800 :: code_unit) = 0xD800" by simp
  then have e: "encodeURI [0xD800] = Inl URIError"
    by (simp add: encodeURI_def Encode.simps unescaped_def uriUnescaped_def reserved_def is_lead_def is_trail_def in_range_def
        uriMark_def uriReserved_def js_def)
  then have "endpoint_of (query_or_default (Some [0xD800])) = Inl URIError"
    by (simp add: query_or_default_def endpoint_of_def)
  note t = fetchMovies_thrown [OF try_malformed [OF this]]
  show ?thesis
    by (simp add: t empty_world_def)
qed

subsection \<open>A body with and without results\<close>

lemma try_success:
  assumes "endpoint_of q = Inr u" "fetch ev u = Inr resp" "ok resp" "json resp = Inr (Object data)"
    "response data \<noteq> Some (js ''False'')" "q = [] \<or> results data = Some []"
  shows "fetchMovies_try ev q (a, w) =
     (Inr (), a\<lparr>moviesList := results_or_empty (results data)\<rparr>, w\<lparr>requests := requests w @ [u]\<rparr>)"
  using assms by (auto simp: fetchMovies_try_def Let_def)

lemma try_success_recorded:
  assumes "endpoint_of q = Inr u" "fetch ev u = Inr resp" "ok resp" "json resp = Inr (Object data)"
    "response data \<noteq> Some (js ''False'')" "q \<noteq> []" "results data = Some (m # ms)"
  shows "fetchMovies_try ev q (a, w) =
     (Inr (), a\<lparr>moviesList := m # ms\<rparr>,
      snd (updateSearchCount (telemetry ev) q m (w\<lparr>requests := requests w @ [u]\<rparr>)))"
proof -
  obtain r w2 where u: "updateSearchCount (telemetry ev) q m (w\<lparr>requests := requests w @ [u]\<rparr>) = (r, w2)"
    by (cases "updateSearchCount (telemetry ev) q m (w\<lparr>requests := requests w @ [u]\<rparr>)")
  with updateSearchCount_resolves [of "telemetry ev" q m "w\<lparr>requests := requests w @ [u]\<rparr>"]
  have "r = Inr ()" by simp
  with assms u show ?thesis
    by (simp add: fetchMovies_try_def results_or_empty_def Let_def)
qed

lemma try_results_missing:
  assumes "endpoint_of q = Inr u" "fetch ev u = Inr resp" "ok resp" "json resp = Inr (Object data)"
    "response data \<noteq> Some (js ''False'')" "q \<noteq> []" "results data = None"
  shows "fetchMovies_try ev q (a, w) =
     (Inl (TypeError_of (read_of_undefined (engine ev) (js ''length''))),
      a\<lparr>moviesList := []\<rparr>, w\<lparr>requests := requests w @ [u]\<rparr>)"
  using assms by (simp add: fetchMovies_try_def results_or_empty_def Let_def)

lemma fetchMovies_success:
  assumes "endpoint_of (query_or_default arg) = Inr u" "fetch ev u = Inr resp" "ok resp"
    "json resp = Inr (Object data)" "response data \<noteq> Some (js ''False'')"
    "query_or_default arg = [] \<or> results data \<noteq> None"
  shows "fst (fetchMovies ev arg (a, w)) = Inr ()
     \<and> fst (snd (fetchMovies ev arg (a, w))) =
         a\<lparr>errorMessage := [], moviesList := results_or_empty (results data), isLoading := False\<rparr>"
proof -
  let ?a = "a\<lparr>isLoading := True, errorMessage := []\<rparr>"
  consider "query_or_default arg = [] \<or> results data = Some []"
    | m ms where "query_or_default arg \<noteq> []" "results data = Some (m # ms)"
    using assms(6) by (cases "results data"; cases "the (results data)") auto
  then show ?thesis
  proof cases
    case 1
    from fetchMovies_normal [OF try_success [OF assms(1-5) 1, of ?a w]] show ?thesis
      by simp
  next
    case 2
    from fetchMovies_normal [OF try_success_recorded [OF assms(1-5) 2, of ?a w]] show ?thesis
      by (simp add: 2 results_or_empty_def)
  qed
qed

lemma fetchMovies_results_missing:
  assumes "endpoint_of (query_or_default arg) = Inr u" "fetch ev u = Inr resp" "ok resp"
    "json resp = Inr (Object data)" "response data \<noteq> Some (js ''False'')"
    "query_or_default arg \<noteq> []" "results data = None"
  shows "fst (snd (fetchMovies ev arg (a, w))) =
         a\<lparr>errorMessage := js ''Error fetching movies. Please try again later.'',
            moviesList := [], isLoading := False\<rparr>"
  using fetchMovies_thrown [OF try_results_missing [OF assms, of "a\<lparr>isLoading := True, errorMessage := []\<rparr>" w]]
  by simp

text \<open>
  Claim C7 at a body without \<open>results\<close>, on any engine, from a state that holds a movie:
  for the query \<open>dune\<close> the list of movies becomes empty, and then \<open>data.results.length\<close>
  throws a \<open>TypeError\<close>, which the \<open>catch\<close> block writes to the console and turns into the
  error message; with no query the same body ends with the empty list and no error
  message.
\<close>

theorem fetchMovies_missing_results:
  "fetchMovies ((service_env (Inr (ok_with empty_body)))\<lparr>engine := eng\<rparr>) (Some (js ''dune''))
      (loaded_state, empty_world) =
     (Inr (),
      loaded_state\<lparr>moviesList := [],
        errorMessage := js ''Error fetching movies. Please try again later.''\<rparr>,
      \<lparr>store = [], console =
         [Console_log (Str (js ''Error fetching movies: ''
            @ toString_error (TypeError_of (read_of_undefined eng (js ''length'')))))],
       requests = [js ''https://api.themoviedb.org/3/search/movie?query=dune'']\<rparr>)
   \<and> fetchMovies ((service_env (Inr (ok_with empty_body)))\<lparr>engine := eng\<rparr>) None
      (loaded_state, empty_world) =
     (Inr (), loaded_state\<lparr>moviesList := []\<rparr>,
      \<lparr>store = [], console = [],
       requests = [js ''https://api.themoviedb.org/3/discover/movie?sort_by=popularity.desc'']\<rparr>)"
proof -
  let ?ev = "(service_env (Inr (ok_with empty_body)))\<lparr>engine := eng\<rparr>"
  let ?u1 = "js ''https://api.themoviedb.org/3/discover/movie?sort_by=popularity.desc''"
  let ?u2 = "js ''https://api.themoviedb.org/3/search/movie?query=dune''"
  let ?a = "loaded_state\<lparr>isLoading := True, errorMessage := []\<rparr>"
  have e1: "endpoint_of (query_or_default None) = Inr ?u1"
    by (simp add: query_or_default_def endpoint_of_def API_BASE_URL_def js_def)
  have e2: "endpoint_of (query_or_default (Some (js ''dune''))) = Inr ?u2"
    by (simp add: query_or_default_def endpoint_of_def API_BASE_URL_def js_def
        encodeURI_def Encode.simps unescaped_def uriUnescaped_def reserved_def in_range_def)
  have f: "fetch ?ev ?u1 = Inr (ok_with empty_body)" "fetch ?ev ?u2 = Inr (ok_with empty_body)"
    by (simp_all add: service_env_def)
  have g: "engine ?ev = eng" by simp
  have b: "ok (ok_with empty_body)" "json (ok_with empty_body) = Inr (Object empty_body)"
    "response empty_body \<noteq> Some (js ''False'')" "results empty_body = None"
    by (simp_all add: ok_with_def empty_body_def)
  have q: "query_or_default (Some (js ''dune'')) \<noteq> []" "query_or_default None = [] \<or> results empty_body = Some []"
    by (simp_all add: query_or_default_def js_def)
  from fetchMovies_thrown [OF try_results_missing [OF e2 f(2) b(1,2,3) q(1) b(4), of ?a empty_world]]
  have 1: "fetchMovies ?ev (Some (js ''dune'')) (loaded_state, empty_world) =
     (Inr (),
      loaded_state\<lparr>moviesList := [],
        errorMessage := js ''Error fetching movies. Please try again later.''\<rparr>,
      \<lparr>store = [], console =
         [Console_log (Str (js ''Error fetching movies: ''
            @ toString_error (TypeError_of (read_of_undefined eng (js ''length'')))))],
       requests = [?u2]\<rparr>)"
    unfolding g by (simp add: loaded_state_def initial_state_def empty_world_def)
  from fetchMovies_normal [OF try_success [OF e1 f(1) b(1,2,3) q(2), of ?a empty_world]]
  have 2: "fetchMovies ?ev None (loaded_state, empty_world) =
     (Inr (), loaded_state\<lparr>moviesList := []\<rparr>,
      \<lparr>store = [], console = [], requests = [?u1]\<rparr>)"
    by (simp add: b(4) results_or_empty_def loaded_state_def initial_state_def empty_world_def)
  from 1 2 show ?thesis by (rule conjI)
qed

subsection \<open>A response that is not a success\<close>

text \<open>
  Claim C8, as the code has it. \<open>fetchMovies\<close> never rejects. On a response whose status is
  not a success, from either endpoint, the error \<open>Failed to fetch movies\<close> is thrown inside
  the \<open>try\<close> block and goes to the console only; the error message of the state is
  \<open>Error fetching movies. Please try again later.\<close>, and the loading flag is cleared.
\<close>

theorem fetchMovies_bad_status:
  "fst (fetchMovies ev arg (a, w)) = Inr ()
   \<and> (endpoint_of (query_or_default arg) = Inr u \<longrightarrow> fetch ev u = Inr resp \<longrightarrow> \<not> ok resp \<longrightarrow>
        fetchMovies ev arg (a, w) =
          (Inr (),
           a\<lparr>errorMessage := js ''Error fetching movies. Please try again later.'',
              isLoading := False\<rparr>,
           w\<lparr>requests := requests w @ [u],
              console := console w
                @ [Console_log (Str (js ''Error fetching movies: Error: Failed to fetch movies''))]\<rparr>))"
proof (intro conjI impI)
  show "fst (fetchMovies ev arg (a, w)) = Inr ()"
    by (rule fetchMovies_resolves)
next
  assume h: "endpoint_of (query_or_default arg) = Inr u" "fetch ev u = Inr resp" "\<not> ok resp"
  have msg: "js ''Error fetching movies: '' @ js ''Error: Failed to fetch movies''
      = js ''Error fetching movies: Error: Failed to fetch movies''"
    by (simp add: js_def)
  show "fetchMovies ev arg (a, w) =
          (Inr (),
           a\<lparr>errorMessage := js ''Error fetching movies. Please try again later.'',
              isLoading := False\<rparr>,
           w\<lparr>requests := requests w @ [u],
              console := console w
                @ [Console_log (Str (js ''Error fetching movies: Error: Failed to fetch movies''))]\<rparr>)"
    by (simp add: fetchMovies_thrown [OF try_not_ok [OF h]] toString_failed msg)
qed

text \<open>
  The theorem at a response with \<open>ok = false\<close>, with no query and with the query \<open>dune\<close>.
\<close>

theorem fetchMovies_bad_status_witness:
  "endpoint_of (query_or_default None)
     = Inr (js ''https://api.themoviedb.org/3/discover/movie?sort_by=popularity.desc'')
   \<and> endpoint_of (query_or_default (Some (js ''dune'')))
     = Inr (js ''https://api.themoviedb.org/3/search/movie?query=dune'')
   \<and> \<not> ok status_500
   \<and> fetchMovies (service_env (Inr status_500)) None (loaded_state, empty_world) =
       (Inr (),
        loaded_state\<lparr>errorMessage := js ''Error fetching movies. Please try again later.''\<rparr>,
        \<lparr>store = [], console =
           [Console_log (Str (js ''Error fetching movies: Error: Failed to fetch movies''))],
         requests = [js ''https://api.themoviedb.org/3/discover/movie?sort_by=popularity.desc'']\<rparr>)
   \<and> fetchMovies (service_env (Inr status_500)) (Some (js ''dune'')) (loaded_state, empty_world) =
       (Inr (),
        loaded_state\<lparr>errorMessage := js ''Error fetching movies. Please try again later.''\<rparr>,
        \<lparr>store = [], console =
           [Console_log (Str (js ''Error fetching movies: Error: Failed to fetch movies''))],
         requests = [js ''https://api.themoviedb.org/3/search/movie?query=dune'']\<rparr>)"
proof -
  let ?ev = "service_env (Inr status_500)"
  let ?u1 = "js ''https://api.themoviedb.org/3/discover/movie?sort_by=popularity.desc''"
  let ?u2 = "js ''https://api.themoviedb.org/3/search/movie?query=dune''"
  have e1: "endpoint_of (query_or_default None) = Inr ?u1"
    by (simp add: query_or_default_def endpoint_of_def API_BASE_URL_def js_def)
  have e2: "endpoint_of (query_or_default (Some (js ''dune''))) = Inr ?u2"
    by (simp add: query_or_default_def endpoint_of_def API_BASE_URL_def js_def
        encodeURI_def Encode.simps unescaped_def uriUnescaped_def reserved_def in_range_def)
  have f: "fetch ?ev ?u1 = Inr status_500" "fetch ?ev ?u2 = Inr status_500"
    by (simp_all add: service_env_def)
  have k: "\<not> ok status_500" by (simp add: status_500_def)
  have l: "loaded_state\<lparr>errorMessage := js ''Error fetching movies. Please try again later.'',
      isLoading := False\<rparr>
      = loaded_state\<lparr>errorMessage := js ''Error fetching movies. Please try again later.''\<rparr>"
    by (simp add: loaded_state_def initial_state_def)
  from fetchMovies_bad_status [of ?ev None loaded_state empty_world ?u1 status_500] e1 f(1) k
  have 1: "fetchMovies ?ev None (loaded_state, empty_world) =
       (Inr (),
        loaded_state\<lparr>errorMessage := js ''Error fetching movies. Please try again later.''\<rparr>,
        \<lparr>store = [], console =
           [Console_log (Str (js ''Error fetching movies: Error: Failed to fetch movies''))],
         requests = [?u1]\<rparr>)"
    by (simp add: l empty_world_def)
  from fetchMovies_bad_status [of ?ev "Some (js ''dune'')" loaded_state empty_world ?u2 status_500]
    e2 f(2) k
  have 2: "fetchMovies ?ev (Some (js ''dune'')) (loaded_state, empty_world) =
       (Inr (),
        loaded_state\<lparr>errorMessage := js ''Error fetching movies. Please try again later.''\<rparr>,
        \<lparr>store = [], console =
           [Console_log (Str (js ''Error fetching movies: Error: Failed to fetch movies''))],
         requests = [?u2]\<rparr>)"
    by (simp add: l empty_world_def)
  from e1 e2 k 1 2 show ?thesis by blast
qed

text \<open>
  Claim C8 as stated fails: after a response that is not a success the error message of the
  state is not the text \<open>Failed to fetch movies\<close>, in either spelling.
\<close>

theorem fetchMovies_bad_status_message:
  "\<not> ok status_500
   \<and> errorMessage (fst (snd (fetchMovies (service_env (Inr status_500)) None
        (initial_state, empty_world)))) \<noteq> js ''Failed to fetch movies''
   \<and> errorMessage (fst (snd (fetchMovies (service_env (Inr status_500)) None
        (initial_state, empty_world)))) \<noteq> js ''failed to fetch movies''
   \<and> errorMessage (fst (snd (fetchMovies (service_env (Inr status_500)) None
        (initial_state, empty_world)))) = js ''Error fetching movies. Please try again later.''"
proof -
  let ?ev = "service_env (Inr status_500)"
  let ?u1 = "js ''https://api.themoviedb.org/3/discover/movie?sort_by=popularity.desc''"
  have e1: "endpoint_of (query_or_default None) = Inr ?u1"
    by (simp add: query_or_default_def endpoint_of_def API_BASE_URL_def js_def)
  have f: "fetch ?ev ?u1 = Inr status_500"
    by (simp add: service_env_def)
  have k: "\<not> ok status_500" by (simp add: status_500_def)
  note t = fetchMovies_thrown [OF try_not_ok [OF e1 f k]]
  have m: "errorMessage (fst (snd (fetchMovies ?ev None (initial_state, empty_world))))
      = js ''Error fetching movies. Please try again later.''"
    by (simp add: t)
  have "js ''Error fetching movies. Please try again later.'' \<noteq> js ''Failed to fetch movies''"
    "js ''Error fetching movies. Please try again later.'' \<noteq> js ''failed to fetch movies''"
    by (simp_all add: js_def)
  with m k show ?thesis by simp
qed

subsection \<open>Failures keep the list of movies\<close>

text \<open>
  Claim C10. When the request rejects, the status is not a success, or the body is not
  JSON, \<open>fetchMovies\<close> resolves and changes the error message and the loading flag only: the
  list of movies, every other cell of the state and the collection of the store are as
  before the call.
\<close>

theorem fetchMovies_failure_keeps_movies:
  "endpoint_of (query_or_default arg) = Inr u \<longrightarrow>
   (fetch ev u = Inl e \<or> (\<exists>resp. fetch ev u = Inr resp \<and> (\<not> ok resp \<or> json resp = Inl e))) \<longrightarrow>
     fst (fetchMovies ev arg (a, w)) = Inr ()
     \<and> fst (snd (fetchMovies ev arg (a, w))) =
         a\<lparr>errorMessage := js ''Error fetching movies. Please try again later.'',
            isLoading := False\<rparr>
     \<and> moviesList (fst (snd (fetchMovies ev arg (a, w)))) = moviesList a
     \<and> store (snd (snd (fetchMovies ev arg (a, w)))) = store w"
proof (intro impI)
  assume u: "endpoint_of (query_or_default arg) = Inr u"
    and f: "fetch ev u = Inl e \<or> (\<exists>resp. fetch ev u = Inr resp \<and> (\<not> ok resp \<or> json resp = Inl e))"
  let ?a = "a\<lparr>isLoading := True, errorMessage := []\<rparr>"
  from f have "\<exists>x. fetchMovies_try ev (query_or_default arg) (?a, w)
      = (Inl x, ?a, w\<lparr>requests := requests w @ [u]\<rparr>)"
  proof (elim disjE exE conjE)
    assume "fetch ev u = Inl e"
    from try_rejected [OF u this] show ?thesis by blast
  next
    fix resp assume r: "fetch ev u = Inr resp" and "\<not> ok resp"
    from try_not_ok [OF u this] show ?thesis by blast
  next
    fix resp assume r: "fetch ev u = Inr resp" and j: "json resp = Inl e"
    show ?thesis
    proof (cases "ok resp")
      case True
      from try_not_json [OF u r True j] show ?thesis by blast
    next
      case False
      from try_not_ok [OF u r False] show ?thesis by blast
    qed
  qed
  then obtain x where "fetchMovies_try ev (query_or_default arg) (?a, w)
      = (Inl x, ?a, w\<lparr>requests := requests w @ [u]\<rparr>)" ..
  from fetchMovies_thrown [OF this]
  show "fst (fetchMovies ev arg (a, w)) = Inr ()
     \<and> fst (snd (fetchMovies ev arg (a, w))) =
         a\<lparr>errorMessage := js ''Error fetching movies. Please try again later.'',
            isLoading := False\<rparr>
     \<and> moviesList (fst (snd (fetchMovies ev arg (a, w)))) = moviesList a
     \<and> store (snd (snd (fetchMovies ev arg (a, w)))) = store w"
    by simp
qed

text \<open>
  The theorem at a network failure, a status 500 and a body that is not JSON, from a state
  that holds a movie.
\<close>

theorem fetchMovies_failure_keeps_movies_witness:
  "endpoint_of (query_or_default None)
     = Inr (js ''https://api.themoviedb.org/3/discover/movie?sort_by=popularity.desc'')
   \<and> moviesList loaded_state = [dune_movie]
   \<and> moviesList (fst (snd (fetchMovies (service_env (Inl offline)) None
        (loaded_state, empty_world)))) = [dune_movie]
   \<and> moviesList (fst (snd (fetchMovies (service_env (Inr status_500)) None
        (loaded_state, empty_world)))) = [dune_movie]
   \<and> moviesList (fst (snd (fetchMovies (service_env (Inr not_json)) None
        (loaded_state, empty_world)))) = [dune_movie]
   \<and> fst (snd (fetchMovies (service_env (Inr not_json)) None (loaded_state, empty_world)))
       = loaded_state\<lparr>errorMessage := js ''Error fetching movies. Please try again later.''\<rparr>"
proof -
  let ?u = "js ''https://api.themoviedb.org/3/discover/movie?sort_by=popularity.desc''"
  let ?s = "(loaded_state, empty_world)"
  have e: "endpoint_of (query_or_default None) = Inr ?u"
    by (simp add: query_or_default_def endpoint_of_def API_BASE_URL_def js_def)
  have m: "moviesList loaded_state = [dune_movie]"
    by (simp add: loaded_state_def)
  have l: "loaded_state\<lparr>errorMessage := js ''Error fetching movies. Please try again later.'',
      isLoading := False\<rparr>
      = loaded_state\<lparr>errorMessage := js ''Error fetching movies. Please try again later.''\<rparr>"
    by (simp add: loaded_state_def initial_state_def)
  have f1: "fetch (service_env (Inl offline)) ?u = Inl offline
      \<or> (\<exists>resp. fetch (service_env (Inl offline)) ?u = Inr resp
            \<and> (\<not> ok resp \<or> json resp = Inl offline))"
    by (simp add: service_env_def)
  have f2: "fetch (service_env (Inr status_500)) ?u = Inl offline
      \<or> (\<exists>resp. fetch (service_env (Inr status_500)) ?u = Inr resp
            \<and> (\<not> ok resp \<or> json resp = Inl offline))"
    by (simp add: service_env_def status_500_def)
  have f3: "fetch (service_env (Inr not_json)) ?u = Inl (JsError (js ''SyntaxError'') (js ''Unexpected token''))
      \<or> (\<exists>resp. fetch (service_env (Inr not_json)) ?u = Inr resp
            \<and> (\<not> ok resp \<or> json resp = Inl (JsError (js ''SyntaxError'') (js ''Unexpected token''))))"
    by (simp add: service_env_def not_json_def)
  note 1 = fetchMovies_failure_keeps_movies [rule_format, OF e f1, of loaded_state empty_world]
  note 2 = fetchMovies_failure_keeps_movies [rule_format, OF e f2, of loaded_state empty_world]
  note 3 = fetchMovies_failure_keeps_movies [rule_format, OF e f3, of loaded_state empty_world]
  from 1 2 3 e m show ?thesis
    unfolding l by (elim conjE) simp
qed

end
